theory Spec2Isabelle
  imports Complex_Main
begin

text \<open>
  A model of the Mem0 MCP server of \<^verbatim>\<open>src/index.ts\<close>: the constructor of
  \<^verbatim>\<open>Mem0MCPServer\<close>, which selects the cloud or the local client from the environment,
  the handler of tool calls, and the three handlers \<^verbatim>\<open>handleAddMemory\<close>,
  \<^verbatim>\<open>handleSearchMemory\<close> and \<^verbatim>\<open>handleDeleteMemory\<close>. What the memory libraries, the
  network and the JavaScript runtime answer is an input of the model. A function of the
  server returns its result, or the error it throws, together with the trace of the
  backend calls it made and the console lines it wrote. The redirection of
  \<^verbatim>\<open>console.log\<close>, the signal handlers and the stdio transport are not modelled.
\<close>

section \<open>JavaScript values\<close>

text \<open>
  The server receives tool arguments as a loosely typed object
  (\<^verbatim>\<open>args as unknown as Mem0AddToolArgs\<close>), tests them for truthiness and copies them
  into the option objects it hands to the memory libraries. Values are therefore modelled
  as JavaScript values. An object is the list of its properties in insertion order; a
  property that is absent reads as \<open>Undefined\<close>. Numbers are only tested and forwarded,
  never computed with, so they are rationals: the literal \<^verbatim>\<open>0.3\<close> is \<open>Num (3/10)\<close>.
\<close>

datatype jsval =
    Undefined
  | Null
  | Bool bool
  | Num rat
  | Str string
  | Arr "jsval list"
  | Obj "(string \<times> jsval) list"

type_synonym jsobj = "(string \<times> jsval) list"

text \<open>\<^verbatim>\<open>!v\<close> is \<open>\<not> truthy v\<close>.\<close>

fun truthy :: "jsval \<Rightarrow> bool" where
  "truthy Undefined = False"
| "truthy Null = False"
| "truthy (Bool b) = b"
| "truthy (Num n) = (n \<noteq> 0)"
| "truthy (Str s) = (s \<noteq> [])"
| "truthy (Arr xs) = True"
| "truthy (Obj ps) = True"

text \<open>\<^verbatim>\<open>a || b\<close>\<close>

definition js_or :: "jsval \<Rightarrow> jsval \<Rightarrow> jsval" where
  "js_or a b = (if truthy a then a else b)"

text \<open>\<^verbatim>\<open>!!v\<close>\<close>

definition to_boolean :: "jsval \<Rightarrow> jsval" where
  "to_boolean v = Bool (truthy v)"

text \<open>Reading a property, \<^verbatim>\<open>o.k\<close>, and the destructuring \<^verbatim>\<open>const { k } = o\<close>.\<close>

definition property :: "jsobj \<Rightarrow> string \<Rightarrow> jsval" where
  "property ps k = (case map_of ps k of None \<Rightarrow> Undefined | Some v \<Rightarrow> v)"

text \<open>
  The assignment \<^verbatim>\<open>o.k = v\<close>: an existing property keeps its place, a new one is
  appended.
\<close>

fun assign :: "string \<Rightarrow> jsval \<Rightarrow> jsobj \<Rightarrow> jsobj" where
  "assign k v [] = [(k, v)]"
| "assign k v (p # ps) = (if fst p = k then (k, v) # ps else p # assign k v ps)"

text \<open>\<^verbatim>\<open>if (v) o.k = v;\<close>\<close>

definition assign_if :: "string \<Rightarrow> jsval \<Rightarrow> jsobj \<Rightarrow> jsobj" where
  "assign_if k v ps = (if truthy v then assign k v ps else ps)"

text \<open>
  The environment \<^verbatim>\<open>process.env\<close>: a variable is a string or is not set.
\<close>

type_synonym env = "string \<Rightarrow> string option"

definition getenv :: "env \<Rightarrow> string \<Rightarrow> jsval" where
  "getenv e k = (case e k of None \<Rightarrow> Undefined | Some s \<Rightarrow> Str s)"

text \<open>
  The scoping identifiers, read wherever a cloud request is prepared:
  \<^verbatim>\<open>process.env.YOUR_ORG_ID || process.env.ORG_ID\<close> and
  \<^verbatim>\<open>process.env.YOUR_PROJECT_ID || process.env.PROJECT_ID\<close>.
\<close>

definition orgId :: "env \<Rightarrow> jsval" where
  "orgId e = js_or (getenv e ''YOUR_ORG_ID'') (getenv e ''ORG_ID'')"

definition projectId :: "env \<Rightarrow> jsval" where
  "projectId e = js_or (getenv e ''YOUR_PROJECT_ID'') (getenv e ''PROJECT_ID'')"

subsection \<open>What the JavaScript runtime provides\<close>

text \<open>
  \<^verbatim>\<open>fetch\<close>, \<^verbatim>\<open>JSON.stringify\<close> and the printing of numbers belong to the runtime, not
  to this repository; they are parameters of the model. \<open>JSON_stringify v n\<close> stands for
  \<^verbatim>\<open>JSON.stringify(v, null, n)\<close>, with \<open>n = 0\<close> for the call without indentation; its
  result is a string, or \<open>Undefined\<close>. A promise that rejects, and a call that throws, is
  \<open>Inl\<close> of the error; the libraries and \<^verbatim>\<open>fetch\<close> reject with \<^verbatim>\<open>Error\<close> instances, of
  which the code reads only \<^verbatim>\<open>message\<close>. \<^verbatim>\<open>fetch\<close> resolves with a response, of which
  the model keeps the HTTP status.
\<close>

datatype js_error = Error (message: string)

type_synonym 'a promise = "js_error + 'a"

record runtime =
  Number_toString :: "rat \<Rightarrow> string"
  JSON_stringify :: "jsval \<Rightarrow> nat \<Rightarrow> jsval"
  fetch :: "string \<Rightarrow> jsval \<Rightarrow> nat promise"

fun join :: "string list \<Rightarrow> string" where
  "join [] = []"
| "join [s] = s"
| "join (s # t # ss) = s @ '','' @ join (t # ss)"

text \<open>The results of a list of conversions, or the first error among them.\<close>

fun first_error :: "('e + 'a) list \<Rightarrow> 'e + 'a list" where
  "first_error [] = Inr []"
| "first_error (Inl err # rs) = Inl err"
| "first_error (Inr a # rs) = (case first_error rs of Inl err \<Rightarrow> Inl err | Inr as \<Rightarrow> Inr (a # as))"

text \<open>
  The conversion a template literal \<^verbatim>\<open>`${v}`\<close> applies to \<open>v\<close>. It throws a
  \<^verbatim>\<open>TypeError\<close> for an object that has a property of its own named \<^verbatim>\<open>toString\<close>: the
  value of such a property of an argument is not a function, and neither it nor
  \<^verbatim>\<open>valueOf\<close> then yields a primitive. An array is converted by joining the conversions
  of its elements, so it throws when one of them does. The message is the one of Node.
\<close>

definition TypeError_primitive :: js_error where
  "TypeError_primitive = Error ''Cannot convert object to primitive value''"

fun ToString :: "runtime \<Rightarrow> jsval \<Rightarrow> js_error + string" where
  "ToString rt Undefined = Inr ''undefined''"
| "ToString rt Null = Inr ''null''"
| "ToString rt (Bool b) = Inr (if b then ''true'' else ''false'')"
| "ToString rt (Num n) = Inr (Number_toString rt n)"
| "ToString rt (Str s) = Inr s"
| "ToString rt (Arr xs) =
     (case first_error
             (map (\<lambda>x. if x = Undefined \<or> x = Null then Inr [] else ToString rt x) xs) of
        Inl err \<Rightarrow> Inl err
      | Inr ss \<Rightarrow> Inr (join ss))"
| "ToString rt (Obj ps) =
     (if ''toString'' \<in> set (map fst ps) then Inl TypeError_primitive
      else Inr ''[object Object]'')"

text \<open>\<^verbatim>\<open>`${process.env.k}`\<close>: the variable, or \<^verbatim>\<open>undefined\<close> spelled out.\<close>

definition env_string :: "env \<Rightarrow> string \<Rightarrow> string" where
  "env_string e k = (case e k of None \<Rightarrow> ''undefined'' | Some s \<Rightarrow> s)"

section \<open>Errors, clients and the trace of a call\<close>

datatype ErrorCode = InternalError | InvalidParams | MethodNotFound

datatype McpError = McpError ErrorCode string

text \<open>
  What a handler can throw: an \<open>McpError\<close>, or anything else, which the dispatcher
  turns into an \<open>InternalError\<close>.
\<close>

datatype thrown = Mcp McpError | Other js_error

text \<open>
  The two library clients are objects with methods; what a method answers is the
  library's business, so a client is a record of functions. \<open>vectorstore_delete\<close> is
  \<^verbatim>\<open>this.localClient._vectorstore.delete\<close>: \<open>None\<close> when \<^verbatim>\<open>_vectorstore\<close> is missing or
  its \<^verbatim>\<open>delete\<close> is not a function.
\<close>

record MemoryClient =
  add :: "jsval \<Rightarrow> jsval \<Rightarrow> jsval promise"
  search :: "jsval \<Rightarrow> jsval \<Rightarrow> jsval promise"
  deleteMemory :: "jsval \<Rightarrow> jsval promise"

record Memory = MemoryClient +
  vectorstore_delete :: "(jsval \<Rightarrow> jsval promise) option"

record Mem0MCPServer =
  isCloudMode :: bool
  localClient :: "Memory option"
  cloudClient :: "MemoryClient option"
  isReady :: bool

text \<open>
  A handler's observable behaviour besides its result: the calls it makes to the
  backends, with their arguments, and the lines it writes to the console, in order.
\<close>

datatype backend_call =
    cloud_add jsval jsval
  | cloud_search jsval jsval
  | cloud_deleteMemory jsval
  | fetch_call string jsval
  | local_add jsval jsval
  | local_search jsval jsval
  | local_deleteMemory jsval
  | local_vectorstore_delete jsval

datatype logged = Text string | Value jsval | Err js_error

datatype event =
    console_info "logged list"
  | console_error "logged list"
  | Call backend_call

text \<open>The backend calls of a trace, in order.\<close>

fun calls :: "event list \<Rightarrow> backend_call list" where
  "calls [] = []"
| "calls (Call c # t) = c # calls t"
| "calls (console_info xs # t) = calls t"
| "calls (console_error xs # t) = calls t"

text \<open>
  The fallback mechanisms of \<^verbatim>\<open>delete_memory\<close>: the direct HTTP request of the cloud
  branch and the vector store's own delete of the local branch.
\<close>

fun is_fallback :: "backend_call \<Rightarrow> bool" where
  "is_fallback (fetch_call url init) = True"
| "is_fallback (local_vectorstore_delete ids) = True"
| "is_fallback (cloud_add m opts) = False"
| "is_fallback (cloud_search q opts) = False"
| "is_fallback (cloud_deleteMemory i) = False"
| "is_fallback (local_add m opts) = False"
| "is_fallback (local_search q opts) = False"
| "is_fallback (local_deleteMemory i) = False"

text \<open>
  The option object a call hands to the library, for the calls that take one; the
  \<^verbatim>\<open>deleteMemory\<close> methods take the memory id and nothing else.
\<close>

fun options_passed :: "backend_call \<Rightarrow> jsval option" where
  "options_passed (cloud_add m opts) = Some opts"
| "options_passed (cloud_search q opts) = Some opts"
| "options_passed (local_add m opts) = Some opts"
| "options_passed (local_search q opts) = Some opts"
| "options_passed (cloud_deleteMemory i) = None"
| "options_passed (local_deleteMemory i) = None"
| "options_passed (fetch_call url init) = None"
| "options_passed (local_vectorstore_delete ids) = None"

text \<open>The error code a handler fails with, if it fails with an \<open>McpError\<close>.\<close>

fun error_code :: "thrown + 'a \<Rightarrow> ErrorCode option" where
  "error_code (Inl (Mcp (McpError code msg))) = Some code"
| "error_code (Inl (Other err)) = None"
| "error_code (Inr r) = None"

type_synonym 'a outcome = "(thrown + 'a) \<times> event list"

section \<open>add\_memory\<close>

definition text_response :: "jsval \<Rightarrow> jsval" where
  "text_response t = Obj [(''content'', Arr [Obj [(''type'', Str ''text''), (''text'', t)]])]"

text \<open>The option object of the cloud branch of \<^verbatim>\<open>handleAddMemory\<close>.\<close>

definition cloud_add_options :: "env \<Rightarrow> jsobj \<Rightarrow> jsobj" where
  "cloud_add_options e args =
     (let userId = property args ''userId'';
          sessionId = property args ''sessionId'';
          agentId = property args ''agentId'';
          metadata = property args ''metadata'';
          options = [(''user_id'', userId), (''version'', Str ''v2'')];
          options = assign_if ''org_id'' (orgId e) options;
          options = assign_if ''project_id'' (projectId e) options;
          options = assign_if ''run_id'' sessionId options;
          options = assign_if ''agent_id'' agentId options;
          options = assign_if ''metadata'' metadata options
      in options)"

definition local_add_options :: "jsobj \<Rightarrow> jsobj" where
  "local_add_options args =
     [(''userId'', property args ''userId''),
      (''sessionId'', property args ''sessionId''),
      (''metadata'', property args ''metadata'')]"

text \<open>
  \<^verbatim>\<open>handleAddMemory\<close>. The line it prints after the validation converts \<open>userId\<close> to
  a string outside every \<^verbatim>\<open>try\<close>: if the conversion throws, the handler throws that
  error and nothing else happens. The write is started and not awaited: the handler
  answers at once, and what the detached task prints when the write settles comes last
  in the trace.
\<close>

definition handleAddMemory :: "Mem0MCPServer \<Rightarrow> env \<Rightarrow> runtime \<Rightarrow> jsobj \<Rightarrow> jsval outcome" where
  "handleAddMemory this e rt args =
     (let content = property args ''content'';
          userId = property args ''userId''
      in
      if \<not> truthy content then
        (Inl (Mcp (McpError InvalidParams ''Missing required argument: content'')), [])
      else if \<not> truthy userId then
        (Inl (Mcp (McpError InvalidParams ''Missing required argument: userId'')), [])
      else
        (case ToString rt userId of
           Inl err \<Rightarrow> (Inl (Other err), [])
         | Inr user \<Rightarrow>
        let queueing = console_info [Text (''Queueing memory addition for user '' @ user)];
            messages = Arr [Obj [(''role'', Str ''user''), (''content'', content)]];
            queued = text_response (Str ''Memory addition queued successfully'')
        in
        (case (isCloudMode this, cloudClient this) of
           (True, Some client) \<Rightarrow>
             let options = Obj (cloud_add_options e args) in
             (Inr queued,
              [queueing, Call (cloud_add messages options),
               (case add client messages options of
                  Inr r \<Rightarrow> console_info [Text ''Memory added asynchronously (cloud)'']
                | Inl err \<Rightarrow> console_error [Text ''Async error adding memory (cloud):'', Err err])])
         | _ \<Rightarrow>
           (case localClient this of
              Some client \<Rightarrow>
                let options = Obj (local_add_options args) in
                (Inr queued,
                 [queueing, Call (local_add messages options),
                  (case add client messages options of
                     Inr r \<Rightarrow> console_info [Text ''Memory added asynchronously (local)'']
                   | Inl err \<Rightarrow> console_error [Text ''Async error adding memory (local):'', Err err])])
            | None \<Rightarrow>
                (Inl (Mcp (McpError InternalError ''No memory client is available'')), [queueing])))))"

section \<open>search\_memory\<close>

text \<open>
  The threshold a search passes on: the caller's, or 0.3 when the caller's is
  \<^verbatim>\<open>undefined\<close> or \<^verbatim>\<open>null\<close>.
\<close>

definition effective_threshold :: "jsval \<Rightarrow> jsval" where
  "effective_threshold threshold =
     (if threshold \<noteq> Undefined \<and> threshold \<noteq> Null then threshold else Num (3 / 10))"

definition cloud_search_options :: "env \<Rightarrow> jsobj \<Rightarrow> jsobj" where
  "cloud_search_options e args =
     (let userId = property args ''userId'';
          sessionId = property args ''sessionId'';
          agentId = property args ''agentId'';
          filters = property args ''filters'';
          threshold = property args ''threshold'';
          options = [(''user_id'', userId), (''version'', Str ''v2'')];
          options = assign_if ''org_id'' (orgId e) options;
          options = assign_if ''project_id'' (projectId e) options;
          options = assign_if ''run_id'' sessionId options;
          options = assign_if ''agent_id'' agentId options;
          options = assign_if ''filters'' filters options;
          options = assign ''threshold'' (effective_threshold threshold) options
      in options)"

definition local_search_options :: "jsobj \<Rightarrow> jsobj" where
  "local_search_options args =
     (let options = [(''userId'', property args ''userId''),
                     (''sessionId'', property args ''sessionId''),
                     (''filters'', property args ''filters'')];
          options = assign ''threshold'' (effective_threshold (property args ''threshold'')) options
      in options)"

text \<open>\<^verbatim>\<open>Array.isArray(results) ? results : [results]\<close>\<close>

definition resultsArray :: "jsval \<Rightarrow> jsval list" where
  "resultsArray results = (case results of Arr xs \<Rightarrow> xs | _ \<Rightarrow> [results])"

definition found :: "runtime \<Rightarrow> jsval \<Rightarrow> string \<Rightarrow> event" where
  "found rt results place =
     console_info [Text (''Found '' @
       Number_toString rt (of_nat (length (resultsArray results))) @ '' memories using '' @ place)]"

definition handleSearchMemory :: "Mem0MCPServer \<Rightarrow> env \<Rightarrow> runtime \<Rightarrow> jsobj \<Rightarrow> jsval outcome" where
  "handleSearchMemory this e rt args =
     (let query = property args ''query'';
          userId = property args ''userId''
      in
      if \<not> truthy query then
        (Inl (Mcp (McpError InvalidParams ''Missing required argument: query'')), [])
      else if \<not> truthy userId then
        (Inl (Mcp (McpError InvalidParams ''Missing required argument: userId'')), [])
      else
        (case (isCloudMode this, cloudClient this) of
           (True, Some client) \<Rightarrow>
             let options = Obj (cloud_search_options e args) in
             (case search client query options of
                Inr results \<Rightarrow>
                  (Inr (text_response (JSON_stringify rt results 2)),
                   [Call (cloud_search query options), found rt results ''cloud API''])
              | Inl err \<Rightarrow>
                  (Inl (Mcp (McpError InternalError (''Error searching memories: '' @ message err))),
                   [Call (cloud_search query options),
                    console_error [Text ''Error searching memories using cloud API:'', Err err]]))
         | _ \<Rightarrow>
           (case localClient this of
              Some client \<Rightarrow>
                let options = Obj (local_search_options args) in
                (case search client query options of
                   Inr results \<Rightarrow>
                     (Inr (text_response (JSON_stringify rt results 2)),
                      [Call (local_search query options), found rt results ''local storage''])
                 | Inl err \<Rightarrow>
                     (Inl (Mcp (McpError InternalError (''Error searching memories: '' @ message err))),
                      [Call (local_search query options),
                       console_error [Text ''Error searching memories using local storage:'', Err err]]))
            | None \<Rightarrow>
                (Inl (Mcp (McpError InternalError ''No memory client is available'')), []))))"

section \<open>delete\_memory\<close>

definition cloud_delete_options :: "env \<Rightarrow> jsobj \<Rightarrow> jsobj" where
  "cloud_delete_options e args =
     (let memoryId = property args ''memoryId'';
          userId = property args ''userId'';
          agentId = property args ''agentId'';
          options = [(''memory_id'', memoryId), (''user_id'', userId), (''version'', Str ''v2'')];
          options = assign_if ''org_id'' (orgId e) options;
          options = assign_if ''project_id'' (projectId e) options;
          options = assign_if ''agent_id'' agentId options
      in options)"

text \<open>The two arguments of the fallback \<^verbatim>\<open>fetch\<close> of the cloud branch.\<close>

definition fallback_url :: "string \<Rightarrow> string" where
  "fallback_url memoryId = ''https://api.mem0.ai/v2/memories/'' @ memoryId"

definition fallback_init :: "env \<Rightarrow> runtime \<Rightarrow> jsobj \<Rightarrow> jsval" where
  "fallback_init e rt options =
     Obj [(''method'', Str ''DELETE''),
          (''headers'',
             Obj [(''Authorization'', Str (''Token '' @ env_string e ''MEM0_API_KEY'')),
                  (''Content-Type'', Str ''application/json'')]),
          (''body'', JSON_stringify rt (Obj options) 0)]"

definition deleted :: "string \<Rightarrow> jsval" where
  "deleted memoryId = text_response (Str (''Memory '' @ memoryId @ '' deleted successfully''))"

definition deleted_using :: "string \<Rightarrow> string \<Rightarrow> event" where
  "deleted_using memoryId how =
     console_info [Text (''Memory '' @ memoryId @ '' deleted successfully using '' @ how)]"

text \<open>
  \<^verbatim>\<open>handleDeleteMemory\<close>. The line it prints after the validation converts \<open>memoryId\<close>
  and then \<open>userId\<close> to strings outside every \<^verbatim>\<open>try\<close>: if a conversion throws, the
  handler throws that error and nothing else happens. The later template literals convert
  \<open>memoryId\<close> again, with the same result, which is \<open>mid\<close> below.
\<close>

definition handleDeleteMemory :: "Mem0MCPServer \<Rightarrow> env \<Rightarrow> runtime \<Rightarrow> jsobj \<Rightarrow> jsval outcome" where
  "handleDeleteMemory this e rt args =
     (let memoryId = property args ''memoryId'';
          userId = property args ''userId''
      in
      if \<not> truthy memoryId then
        (Inl (Mcp (McpError InvalidParams ''Missing required argument: memoryId'')), [])
      else if \<not> truthy userId then
        (Inl (Mcp (McpError InvalidParams ''Missing required argument: userId'')), [])
      else
        (case ToString rt memoryId of
           Inl err \<Rightarrow> (Inl (Other err), [])
         | Inr mid \<Rightarrow>
        (case ToString rt userId of
           Inl err \<Rightarrow> (Inl (Other err), [])
         | Inr user \<Rightarrow>
        let attempting = console_info [Text (''Attempting to delete memory with ID '' @
              mid @ '' for user '' @ user)]
        in
        (case (isCloudMode this, cloudClient this) of
           (True, Some client) \<Rightarrow>
             let options = cloud_delete_options e args in
             (case deleteMemory client memoryId of
                Inr r \<Rightarrow>
                  (Inr (deleted mid),
                   [attempting, Call (cloud_deleteMemory memoryId),
                    deleted_using mid ''cloud API's deleteMemory''])
              | Inl innerError \<Rightarrow>
                  let url = fallback_url mid;
                      init = fallback_init e rt options;
                      t = [attempting, Call (cloud_deleteMemory memoryId),
                           console_info [Text ''Using fallback delete method for cloud API''],
                           Call (fetch_call url init)]
                  in
                  (case fetch rt url init of
                     Inr response \<Rightarrow>
                       (Inr (deleted mid),
                        t @ [deleted_using mid ''direct API request''])
                   | Inl err \<Rightarrow>
                       (Inl (Mcp (McpError InternalError (''Error deleting memory: '' @ message err))),
                        t @ [console_error [Text ''Error deleting memory using cloud API:'', Err err]])))
         | _ \<Rightarrow>
           (case localClient this of
              Some client \<Rightarrow>
                (case deleteMemory client memoryId of
                   Inr r \<Rightarrow>
                     (Inr (deleted mid),
                      [attempting, Call (local_deleteMemory memoryId),
                       deleted_using mid ''local storage deleteMemory''])
                 | Inl innerError \<Rightarrow>
                     let t = [attempting, Call (local_deleteMemory memoryId),
                              console_info [Text ''Using fallback delete method for local storage'']];
                         failed = (\<lambda>err.
                           (Inl (Mcp (McpError InternalError (''Error deleting memory: '' @
                              (if message err \<noteq> [] then message err
                               else ''Local client does not support memory deletion'')))),
                            [console_error [Text ''Error deleting memory using local storage:'', Err err]]))
                     in
                     (case vectorstore_delete client of
                        Some delete \<Rightarrow>
                          let ids = Obj [(''ids'', Arr [memoryId])];
                              t = t @ [Call (local_vectorstore_delete ids)]
                          in
                          (case delete ids of
                             Inr r \<Rightarrow>
                               (Inr (deleted mid),
                                t @ [deleted_using mid ''vectorstore delete''])
                           | Inl err \<Rightarrow> (fst (failed err), t @ snd (failed err)))
                      | None \<Rightarrow>
                          let err = Error ''Local client does not support memory deletion'' in
                          (fst (failed err), t @ snd (failed err))))
            | None \<Rightarrow>
                (Inl (Mcp (McpError InternalError ''No memory client is available'')), [attempting]))))))"

section \<open>The dispatcher\<close>

text \<open>
  The handler of \<^verbatim>\<open>CallToolRequestSchema\<close>, for the tool \<open>name\<close> and the arguments of the
  request, which may be absent (\<^verbatim>\<open>request.params.arguments || {}\<close>).
\<close>

definition CallToolRequest_handler ::
  "Mem0MCPServer \<Rightarrow> env \<Rightarrow> runtime \<Rightarrow> string \<Rightarrow> jsobj option \<Rightarrow> (McpError + jsval) \<times> event list" where
  "CallToolRequest_handler this e rt name arguments =
     (if \<not> isReady this then
        (Inl (McpError InternalError
           ''Memory client is still initializing. Please try again in a moment.''), [])
      else
        let args = (case arguments of Some a \<Rightarrow> a | None \<Rightarrow> []);
            (r, t) =
              (if name = ''add_memory'' then handleAddMemory this e rt args
               else if name = ''search_memory'' then handleSearchMemory this e rt args
               else if name = ''delete_memory'' then handleDeleteMemory this e rt args
               else (Inl (Mcp (McpError MethodNotFound (''Unknown tool: '' @ name))), []))
        in
        (case r of
           Inr response \<Rightarrow> (Inr response, t)
         | Inl (Mcp error) \<Rightarrow> (Inl error, t)
         | Inl (Other error) \<Rightarrow>
             (Inl (McpError InternalError (''Error executing tool: '' @
                (if message error \<noteq> [] then message error else ''Unknown error''))),
              t @ [console_error [Text ''Error executing tool:'', Err error]])))"

section \<open>Startup\<close>

text \<open>
  The process after a step of the startup: it has exited with a status, or it runs with
  a server in some state.
\<close>

datatype process = Exited nat | Running Mem0MCPServer

text \<open>
  What the libraries answer during startup: whether \<^verbatim>\<open>import('mem0ai')\<close> resolves, and
  what \<^verbatim>\<open>new MemoryClient(clientOptions)\<close> and \<^verbatim>\<open>new Memory({...})\<close> return or throw.
  The embedder and vector store configuration built from the environment for
  \<^verbatim>\<open>new Memory\<close> is not modelled: no branch of the startup depends on it.
\<close>

record libraries =
  import_mem0ai :: "unit promise"
  new_MemoryClient :: "jsval \<Rightarrow> MemoryClient promise"
  new_Memory :: "Memory promise"

definition clientOptions :: "env \<Rightarrow> jsobj" where
  "clientOptions e =
     (let options = [(''apiKey'', getenv e ''MEM0_API_KEY''),
                     (''debug'', Bool False),
                     (''verbose'', Bool False),
                     (''silent'', Bool True)];
          options = assign_if ''org_id'' (orgId e) options;
          options = assign_if ''project_id'' (projectId e) options
      in options)"

text \<open>
  The constructor of \<^verbatim>\<open>Mem0MCPServer\<close>. In the cloud branch it returns with the import
  pending; \<open>import_settled\<close> is the continuation that runs when the import settles.
\<close>

definition Mem0MCPServer_constructor :: "env \<Rightarrow> libraries \<Rightarrow> process \<times> event list" where
  "Mem0MCPServer_constructor e lib =
     (let initializing = console_info [Text ''Initializing Mem0 MCP Server...''];
          mem0ApiKey = getenv e ''MEM0_API_KEY'';
          openaiApiKey = getenv e ''OPENAI_API_KEY'';
          this = \<lparr>isCloudMode = False, localClient = None, cloudClient = None, isReady = False\<rparr>
      in
      if truthy mem0ApiKey then
        (Running (this\<lparr>isCloudMode := True\<rparr>),
         [initializing, console_info [Text ''Using Mem0 cloud storage mode with MEM0_API_KEY'']])
      else if truthy openaiApiKey then
        let t = [initializing,
                 console_info [Text ''Using local in-memory storage mode with OPENAI_API_KEY'']];
            this = this\<lparr>isCloudMode := False\<rparr>
        in
        if getenv e ''VECTOR_DB_PROVIDER'' = Str ''qdrant'' \<and> \<not> truthy (getenv e ''VECTOR_DB_URL'') then
          (Exited 1,
           t @ [console_error
                  [Text ''Error: VECTOR_DB_URL must be set when VECTOR_DB_PROVIDER=qdrant'']])
        else
          (case new_Memory lib of
             Inr client \<Rightarrow>
               (Running (this\<lparr>localClient := Some client, isReady := True\<rparr>),
                t @ [console_info
                       [Text ''Local client initialized successfully with custom configuration'']])
           | Inl err \<Rightarrow>
               (Exited 1, t @ [console_error [Text ''Error initializing local client:'', Err err]]))
      else
        (Exited 1,
         [initializing,
          console_error [Text ''Error: Either MEM0_API_KEY (for cloud storage) or OPENAI_API_KEY (for local storage) must be provided.'']]))"

definition import_settled :: "env \<Rightarrow> libraries \<Rightarrow> Mem0MCPServer \<Rightarrow> process \<times> event list" where
  "import_settled e lib this =
     (case import_mem0ai lib of
        Inr mem0ai \<Rightarrow>
          (let mem0ApiKey = getenv e ''MEM0_API_KEY''
           in
           case new_MemoryClient lib (Obj (clientOptions e)) of
             Inr client \<Rightarrow>
               (Running (this\<lparr>cloudClient := Some client, isReady := True\<rparr>),
                [console_info
                   [Text ''Cloud client initialized successfully with options:'',
                    Value (Obj [(''hasApiKey'', to_boolean mem0ApiKey),
                                (''hasOrgId'', to_boolean (orgId e)),
                                (''hasProjectId'', to_boolean (projectId e))])]])
           | Inl err \<Rightarrow>
               (Running this,
                [console_error [Text ''Error in cloud client initialization:'', Err err]]))
      | Inl err \<Rightarrow>
          (Exited 1, [console_error [Text ''Error initializing cloud client:'', Err err]]))"

text \<open>The whole startup: the constructor, then the settling of the import if one is pending.\<close>

definition startup :: "env \<Rightarrow> libraries \<Rightarrow> process \<times> event list" where
  "startup e lib =
     (case Mem0MCPServer_constructor e lib of
        (Exited status, t) \<Rightarrow> (Exited status, t)
      | (Running this, t) \<Rightarrow>
          if isCloudMode this then
            (case import_settled e lib this of (p, t') \<Rightarrow> (p, t @ t'))
          else (Running this, t))"

section \<open>Example inputs\<close>

text \<open>
  Concrete clients, servers and a runtime on which the theorems below are instantiated.
  Every method of an example client settles in the same given way; the example runtime's
  \<^verbatim>\<open>fetch\<close> settles in a given way, and how it prints is immaterial to the examples.
\<close>

definition example_client :: "jsval promise \<Rightarrow> MemoryClient" where
  "example_client answer =
     \<lparr>add = (\<lambda>messages options. answer),
      search = (\<lambda>query options. answer),
      deleteMemory = (\<lambda>memoryId. answer)\<rparr>"

definition example_memory :: "jsval promise \<Rightarrow> (jsval \<Rightarrow> jsval promise) option \<Rightarrow> Memory" where
  "example_memory answer vectorstore =
     \<lparr>add = (\<lambda>messages options. answer),
      search = (\<lambda>query options. answer),
      deleteMemory = (\<lambda>memoryId. answer),
      vectorstore_delete = vectorstore\<rparr>"

definition example_runtime :: "nat promise \<Rightarrow> runtime" where
  "example_runtime response =
     \<lparr>Number_toString = (\<lambda>n. if n = 0 then ''0'' else ''1''),
      JSON_stringify = (\<lambda>v n. if v = Undefined then Undefined else Str ''[]''),
      fetch = (\<lambda>url init. response)\<rparr>"

definition cloud_server :: "MemoryClient \<Rightarrow> Mem0MCPServer" where
  "cloud_server client =
     \<lparr>isCloudMode = True, localClient = None, cloudClient = Some client, isReady = True\<rparr>"

definition local_server :: "Memory \<Rightarrow> Mem0MCPServer" where
  "local_server client =
     \<lparr>isCloudMode = False, localClient = Some client, cloudClient = None, isReady = True\<rparr>"

text \<open>The server between the constructor's return and the settling of the import.\<close>

definition pending_server :: Mem0MCPServer where
  "pending_server =
     \<lparr>isCloudMode = True, localClient = None, cloudClient = None, isReady = False\<rparr>"

definition example_libraries :: libraries where
  "example_libraries =
     \<lparr>import_mem0ai = Inr (),
      new_MemoryClient = (\<lambda>options. Inr (example_client (Inr Null))),
      new_Memory = Inr (example_memory (Inr Null) None)\<rparr>"

text \<open>An environment with a cloud key and both scoping identifiers.\<close>

definition scoped_env :: env where
  "scoped_env =
     map_of [(''MEM0_API_KEY'', ''m0-key''), (''ORG_ID'', ''org-1''), (''PROJECT_ID'', ''proj-1'')]"

text \<open>An environment in which both variables of the organization identifier are set.\<close>

definition overridden_env :: env where
  "overridden_env =
     map_of [(''MEM0_API_KEY'', ''m0-key''), (''YOUR_ORG_ID'', ''your-org''), (''ORG_ID'', ''org-1'')]"

section \<open>Auxiliary facts\<close>

lemma map_of_assign: "map_of (assign k v ps) k' = (if k' = k then Some v else map_of ps k')"
  by (induction ps) auto

lemma property_assign: "property (assign k v ps) k' = (if k' = k then v else property ps k')"
  by (simp add: property_def map_of_assign)

lemma ready_has_client:
  assumes "fst (startup e lib) = Running this" "isReady this"
  shows "(isCloudMode this \<and> cloudClient this \<noteq> None \<and> localClient this = None)
       \<or> (\<not> isCloudMode this \<and> localClient this \<noteq> None \<and> cloudClient this = None)"
  using assms
  by (auto simp: startup_def Mem0MCPServer_constructor_def import_settled_def Let_def
           split: if_splits sum.splits prod.splits process.splits)

lemma add_queued:
  assumes "(isCloudMode this \<and> cloudClient this \<noteq> None) \<or> localClient this \<noteq> None"
    "truthy (property args ''content'')" "truthy (property args ''userId'')"
    "ToString rt (property args ''userId'') = Inr user"
  shows "fst (handleAddMemory this e rt args) = Inr (text_response (Str ''Memory addition queued successfully''))"
  using assms
  by (auto simp: handleAddMemory_def Let_def split: bool.splits option.splits)

lemma constructor_cloud:
  "truthy (getenv e ''MEM0_API_KEY'') \<Longrightarrow>
   fst (Mem0MCPServer_constructor e lib) = Running pending_server"
  by (simp add: Mem0MCPServer_constructor_def pending_server_def)

lemma constructor_local:
  assumes "\<not> truthy (getenv e ''MEM0_API_KEY'')" "truthy (getenv e ''OPENAI_API_KEY'')"
  shows "fst (Mem0MCPServer_constructor e lib) = Exited 1 \<or>
    (\<exists>client. new_Memory lib = Inr client \<and>
       fst (Mem0MCPServer_constructor e lib) = Running (local_server client))"
  using assms
  by (auto simp: Mem0MCPServer_constructor_def local_server_def Let_def split: sum.splits)

lemma constructor_neither:
  assumes "\<not> truthy (getenv e ''MEM0_API_KEY'')" "\<not> truthy (getenv e ''OPENAI_API_KEY'')"
  shows "fst (Mem0MCPServer_constructor e lib) = Exited 1" "fst (startup e lib) = Exited 1"
  using assms
  by (simp_all add: startup_def Mem0MCPServer_constructor_def)

lemma running_mode:
  assumes "fst (startup e lib) = Running this"
  shows "isCloudMode this = truthy (getenv e ''MEM0_API_KEY'')"
    "cloudClient this \<noteq> None \<Longrightarrow> isCloudMode this \<and> localClient this = None"
    "localClient this \<noteq> None \<Longrightarrow> \<not> isCloudMode this \<and> cloudClient this = None"
  using assms
  by (auto simp: startup_def Mem0MCPServer_constructor_def import_settled_def Let_def
           split: if_splits sum.splits prod.splits process.splits)

lemma startup_failures_that_exit:
  "(truthy (getenv e ''MEM0_API_KEY'') \<and> import_mem0ai lib = Inl err \<longrightarrow>
      fst (startup e lib) = Exited 1)
 \<and> (\<not> truthy (getenv e ''MEM0_API_KEY'') \<and> truthy (getenv e ''OPENAI_API_KEY'') \<and>
      new_Memory lib = Inl err \<longrightarrow> fst (startup e lib) = Exited 1)"
  by (auto simp: startup_def Mem0MCPServer_constructor_def import_settled_def Let_def)

lemma cloud_constructor_failure_never_exits:
  "truthy (getenv e ''MEM0_API_KEY'') \<Longrightarrow> import_mem0ai lib = Inr m \<Longrightarrow>
   new_MemoryClient lib (Obj (clientOptions e)) = Inl err \<Longrightarrow>
   fst (startup e lib) = Running pending_server"
  by (simp add: startup_def Mem0MCPServer_constructor_def import_settled_def pending_server_def)

lemma search_calls_cloud:
  assumes "truthy (property args ''query'')" "truthy (property args ''userId'')"
    "isCloudMode this" "cloudClient this \<noteq> None"
  shows "calls (snd (handleSearchMemory this e rt args)) =
    [cloud_search (property args ''query'') (Obj (cloud_search_options e args))]"
  using assms
  by (auto simp: handleSearchMemory_def Let_def found_def split: option.splits sum.splits)

lemma search_calls_local:
  assumes "truthy (property args ''query'')" "truthy (property args ''userId'')"
    "\<not> (isCloudMode this \<and> cloudClient this \<noteq> None)" "localClient this \<noteq> None"
  shows "calls (snd (handleSearchMemory this e rt args)) =
    [local_search (property args ''query'') (Obj (local_search_options args))]"
  using assms
  by (auto simp: handleSearchMemory_def Let_def found_def split: option.splits sum.splits bool.splits)

lemma cloud_search_threshold:
  "property (cloud_search_options e args) ''threshold'' = effective_threshold (property args ''threshold'')"
  by (simp add: cloud_search_options_def Let_def property_assign)

lemma local_search_threshold:
  "property (local_search_options args) ''threshold'' = effective_threshold (property args ''threshold'')"
  by (simp add: local_search_options_def Let_def property_assign) (simp add: property_def)

lemma add_invalid:
  "\<not> truthy (property args ''content'') \<or> \<not> truthy (property args ''userId'') \<Longrightarrow>
   error_code (fst (handleAddMemory this e rt args)) = Some InvalidParams \<and>
   snd (handleAddMemory this e rt args) = []"
  by (auto simp: handleAddMemory_def Let_def)

lemma search_invalid:
  "\<not> truthy (property args ''query'') \<or> \<not> truthy (property args ''userId'') \<Longrightarrow>
   error_code (fst (handleSearchMemory this e rt args)) = Some InvalidParams \<and>
   snd (handleSearchMemory this e rt args) = []"
  by (auto simp: handleSearchMemory_def Let_def)

lemma delete_invalid:
  "\<not> truthy (property args ''memoryId'') \<or> \<not> truthy (property args ''userId'') \<Longrightarrow>
   error_code (fst (handleDeleteMemory this e rt args)) = Some InvalidParams \<and>
   snd (handleDeleteMemory this e rt args) = []"
  by (auto simp: handleDeleteMemory_def Let_def)

lemma unknown_tool:
  "isReady this \<Longrightarrow> name \<noteq> ''add_memory'' \<Longrightarrow> name \<noteq> ''search_memory'' \<Longrightarrow>
   name \<noteq> ''delete_memory'' \<Longrightarrow>
   CallToolRequest_handler this e rt name arguments =
     (Inl (McpError MethodNotFound (''Unknown tool: '' @ name)), [])"
  by (simp add: CallToolRequest_handler_def)

lemma local_add_ignores_agentId:
  assumes "\<not> isCloudMode this" "localClient this = Some client"
    "\<forall>k. k \<noteq> ''agentId'' \<longrightarrow> property args k = property args' k"
  shows "handleAddMemory this e rt args = handleAddMemory this e rt args'"
proof -
  have "property args ''content'' = property args' ''content''"
    "property args ''userId'' = property args' ''userId''"
    "property args ''sessionId'' = property args' ''sessionId''"
    "property args ''metadata'' = property args' ''metadata''"
    using assms(3) by simp_all
  then show ?thesis using assms(1,2)
    by (simp add: handleAddMemory_def local_add_options_def Let_def split: sum.splits)
qed

lemma local_search_ignores_agentId:
  assumes "\<not> isCloudMode this" "localClient this = Some client"
    "\<forall>k. k \<noteq> ''agentId'' \<longrightarrow> property args k = property args' k"
  shows "handleSearchMemory this e rt args = handleSearchMemory this e rt args'"
proof -
  have "property args ''query'' = property args' ''query''"
    "property args ''userId'' = property args' ''userId''"
    "property args ''sessionId'' = property args' ''sessionId''"
    "property args ''filters'' = property args' ''filters''"
    "property args ''threshold'' = property args' ''threshold''"
    using assms(3) by simp_all
  then show ?thesis using assms(1,2)
    by (simp add: handleSearchMemory_def local_search_options_def Let_def)
qed

lemma local_add_call:
  assumes "\<not> isCloudMode this" "localClient this = Some client"
    "truthy (property args ''content'')" "truthy (property args ''userId'')"
    "ToString rt (property args ''userId'') = Inr user"
  shows "calls (snd (handleAddMemory this e rt args)) =
    [local_add (Arr [Obj [(''role'', Str ''user''), (''content'', property args ''content'')]])
       (Obj [(''userId'', property args ''userId''), (''sessionId'', property args ''sessionId''),
             (''metadata'', property args ''metadata'')])]"
  using assms
  by (simp add: handleAddMemory_def local_add_options_def Let_def split: sum.splits)

lemma local_search_call:
  assumes "\<not> isCloudMode this" "localClient this = Some client"
    "truthy (property args ''query'')" "truthy (property args ''userId'')"
  shows "calls (snd (handleSearchMemory this e rt args)) =
    [local_search (property args ''query'')
       (Obj [(''userId'', property args ''userId''), (''sessionId'', property args ''sessionId''),
             (''filters'', property args ''filters''),
             (''threshold'', effective_threshold (property args ''threshold''))])]"
  using assms
  by (simp add: handleSearchMemory_def local_search_options_def Let_def found_def split: sum.splits)

lemma map_of_assign_if:
  "map_of (assign_if k v ps) k' = (if k' = k \<and> truthy v then Some v else map_of ps k')"
  by (simp add: assign_if_def map_of_assign)

lemma scope_of_options:
  "map_of (cloud_add_options e args) ''org_id'' = (if truthy (orgId e) then Some (orgId e) else None)"
  "map_of (cloud_add_options e args) ''project_id'' =
     (if truthy (projectId e) then Some (projectId e) else None)"
  "map_of (cloud_search_options e args) ''org_id'' = (if truthy (orgId e) then Some (orgId e) else None)"
  "map_of (cloud_search_options e args) ''project_id'' =
     (if truthy (projectId e) then Some (projectId e) else None)"
  "map_of (cloud_delete_options e args) ''org_id'' = (if truthy (orgId e) then Some (orgId e) else None)"
  "map_of (cloud_delete_options e args) ''project_id'' =
     (if truthy (projectId e) then Some (projectId e) else None)"
  "map_of (clientOptions e) ''org_id'' = (if truthy (orgId e) then Some (orgId e) else None)"
  "map_of (clientOptions e) ''project_id'' = (if truthy (projectId e) then Some (projectId e) else None)"
  by (simp_all add: cloud_add_options_def cloud_search_options_def cloud_delete_options_def
        clientOptions_def Let_def map_of_assign_if map_of_assign)

lemma add_calls_cloud:
  assumes "truthy (property args ''content'')" "truthy (property args ''userId'')"
    "isCloudMode this" "cloudClient this = Some client"
    "ToString rt (property args ''userId'') = Inr user"
  shows "calls (snd (handleAddMemory this e rt args)) =
    [cloud_add (Arr [Obj [(''role'', Str ''user''), (''content'', property args ''content'')]])
       (Obj (cloud_add_options e args))]"
  using assms
  by (simp add: handleAddMemory_def Let_def split: sum.splits)

lemma fallback_body:
  "(case fallback_init e rt options of Obj init \<Rightarrow> property init ''body'' | _ \<Rightarrow> Undefined) =
     JSON_stringify rt (Obj options) 0"
  by (simp add: fallback_init_def property_def)

lemma cloud_primary_reached:
  assumes "cloud_deleteMemory m \<in> set (calls (snd (handleDeleteMemory this e rt args)))"
  shows "truthy (property args ''memoryId'') \<and> truthy (property args ''userId'') \<and>
    (\<exists>mid. ToString rt (property args ''memoryId'') = Inr mid) \<and>
    (\<exists>user. ToString rt (property args ''userId'') = Inr user)"
  using assms
  by (cases "truthy (property args ''memoryId'')"; cases "truthy (property args ''userId'')";
      cases "ToString rt (property args ''memoryId'')"; cases "ToString rt (property args ''userId'')")
     (simp_all add: handleDeleteMemory_def)

lemma local_primary_reached:
  assumes "local_deleteMemory m \<in> set (calls (snd (handleDeleteMemory this e rt args)))"
  shows "truthy (property args ''memoryId'') \<and> truthy (property args ''userId'') \<and>
    (\<exists>mid. ToString rt (property args ''memoryId'') = Inr mid) \<and>
    (\<exists>user. ToString rt (property args ''userId'') = Inr user)"
  using assms
  by (cases "truthy (property args ''memoryId'')"; cases "truthy (property args ''userId'')";
      cases "ToString rt (property args ''memoryId'')"; cases "ToString rt (property args ''userId'')")
     (simp_all add: handleDeleteMemory_def)

lemma delete_cloud_fallback:
  assumes "truthy (property args ''memoryId'')" "truthy (property args ''userId'')"
    "ToString rt (property args ''memoryId'') = Inr mid"
    "ToString rt (property args ''userId'') = Inr user"
    "isCloudMode this" "cloudClient this = Some client"
    "deleteMemory client (property args ''memoryId'') = Inl err"
  shows "filter is_fallback (calls (snd (handleDeleteMemory this e rt args))) =
           [fetch_call (fallback_url mid) (fallback_init e rt (cloud_delete_options e args))]"
    "fetch rt (fallback_url mid) (fallback_init e rt (cloud_delete_options e args)) = Inl err' \<Longrightarrow>
     fst (handleDeleteMemory this e rt args) =
       Inl (Mcp (McpError InternalError (''Error deleting memory: '' @ message err')))"
    "fetch rt (fallback_url mid) (fallback_init e rt (cloud_delete_options e args)) = Inr status \<Longrightarrow>
     fst (handleDeleteMemory this e rt args) = Inr (deleted mid)"
  using assms
  by (simp_all add: handleDeleteMemory_def Let_def deleted_using_def split: sum.splits)

lemma delete_local_fallback:
  assumes "truthy (property args ''memoryId'')" "truthy (property args ''userId'')"
    "ToString rt (property args ''memoryId'') = Inr mid"
    "ToString rt (property args ''userId'') = Inr user"
    "\<not> isCloudMode this" "localClient this = Some memory"
    "deleteMemory memory (property args ''memoryId'') = Inl err"
    "vectorstore_delete memory = Some delete"
  shows "filter is_fallback (calls (snd (handleDeleteMemory this e rt args))) =
           [local_vectorstore_delete (Obj [(''ids'', Arr [property args ''memoryId''])])]"
    "delete (Obj [(''ids'', Arr [property args ''memoryId''])]) = Inl err' \<Longrightarrow>
     fst (handleDeleteMemory this e rt args) =
       Inl (Mcp (McpError InternalError (''Error deleting memory: '' @
         (if message err' \<noteq> [] then message err'
          else ''Local client does not support memory deletion''))))"
  using assms
  by (simp_all add: handleDeleteMemory_def Let_def deleted_using_def split: sum.splits)

lemma delete_local_no_fallback:
  assumes "truthy (property args ''memoryId'')" "truthy (property args ''userId'')"
    "ToString rt (property args ''memoryId'') = Inr mid"
    "ToString rt (property args ''userId'') = Inr user"
    "\<not> isCloudMode this" "localClient this = Some memory"
    "deleteMemory memory (property args ''memoryId'') = Inl err"
    "vectorstore_delete memory = None"
  shows "filter is_fallback (calls (snd (handleDeleteMemory this e rt args))) = []"
    "fst (handleDeleteMemory this e rt args) =
       Inl (Mcp (McpError InternalError
         ''Error deleting memory: Local client does not support memory deletion''))"
  using assms
  by (simp_all add: handleDeleteMemory_def Let_def deleted_using_def split: sum.splits)

lemma delete_calls_cloud:
  assumes "truthy (property args ''memoryId'')" "truthy (property args ''userId'')"
    "ToString rt (property args ''memoryId'') = Inr mid"
    "ToString rt (property args ''userId'') = Inr user"
    "isCloudMode this" "cloudClient this = Some client"
  shows "calls (snd (handleDeleteMemory this e rt args)) =
    cloud_deleteMemory (property args ''memoryId'') #
      (case deleteMemory client (property args ''memoryId'') of
         Inr r \<Rightarrow> []
       | Inl err \<Rightarrow> [fetch_call (fallback_url mid)
                       (fallback_init e rt (cloud_delete_options e args))])"
  using assms
  by (simp add: handleDeleteMemory_def Let_def deleted_using_def split: sum.splits)

lemma running_cloud_client_constructed:
  assumes "fst (startup e lib) = Running this" "cloudClient this = Some client"
  shows "new_MemoryClient lib (Obj (clientOptions e)) = Inr client"
  using assms
  by (auto simp: startup_def Mem0MCPServer_constructor_def import_settled_def Let_def
           split: if_splits sum.splits prod.splits process.splits)

section \<open>Properties of the server\<close>

text \<open>
  C1 says that every \<^verbatim>\<open>add_memory\<close> call with non-empty \<open>content\<close> and \<open>userId\<close>
  on a ready server is answered with the queued envelope. The handler does not check
  that \<open>userId\<close> is a string, and the line it prints before the write converts
  \<open>userId\<close> to one: for the non-empty \<open>userId\<close> \<^verbatim>\<open>{"toString": 1}\<close> the conversion throws
  and the caller receives an \<open>InternalError\<close>.
\<close>

theorem add_memory_userId_not_convertible:
  "fst (startup (map_of [(''OPENAI_API_KEY'', ''sk-1'')]) example_libraries) =
     Running (local_server (example_memory (Inr Null) None)) \<and>
   isReady (local_server (example_memory (Inr Null) None)) \<and>
   truthy (property [(''content'', Str ''hello''), (''userId'', Obj [(''toString'', Num 1)])] ''content'') \<and>
   truthy (property [(''content'', Str ''hello''), (''userId'', Obj [(''toString'', Num 1)])] ''userId'') \<and>
   CallToolRequest_handler (local_server (example_memory (Inr Null) None))
      (map_of [(''OPENAI_API_KEY'', ''sk-1'')]) (example_runtime (Inr 200)) ''add_memory''
      (Some [(''content'', Str ''hello''), (''userId'', Obj [(''toString'', Num 1)])]) =
     (Inl (McpError InternalError
        ''Error executing tool: Cannot convert object to primitive value''),
      [console_error [Text ''Error executing tool:'', Err TypeError_primitive]])"
  by (simp add: startup_def Mem0MCPServer_constructor_def example_libraries_def getenv_def
        local_server_def CallToolRequest_handler_def handleAddMemory_def property_def
        TypeError_primitive_def)

text \<open>
  C1, amended. On a server that startup has brought to the ready state, an
  \<^verbatim>\<open>add_memory\<close> call with truthy (in particular: non-empty string) \<open>content\<close> and a
  truthy \<open>userId\<close> that converts to a string, as every string does, is answered with the
  envelope \<^verbatim>\<open>{content: [{type: "text", text: "Memory addition queued successfully"}]}\<close>.
  The server's clients are arbitrary, so the answer is the same whether the write the
  handler has started resolves or rejects; a rejected write shows only as a
  \<open>console_error\<close> line in the trace. In the witness the write rejects.
\<close>

theorem add_memory_queued:
  assumes "fst (startup e lib) = Running this" "isReady this"
    "truthy (property args ''content'')" "truthy (property args ''userId'')"
    "ToString rt (property args ''userId'') = Inr user"
  shows "fst (CallToolRequest_handler this e' rt ''add_memory'' (Some args)) =
    Inr (Obj [(''content'', Arr [Obj [(''type'', Str ''text''), (''text'', Str ''Memory addition queued successfully'')]])])"
proof -
  from ready_has_client[OF assms(1,2)]
  have "(isCloudMode this \<and> cloudClient this \<noteq> None) \<or> localClient this \<noteq> None" by blast
  from add_queued[OF this assms(3,4,5)]
  have h: "fst (handleAddMemory this e' rt args) = Inr (text_response (Str ''Memory addition queued successfully''))" .
  show ?thesis using h assms(2)
    by (cases "handleAddMemory this e' rt args") (simp add: CallToolRequest_handler_def text_response_def)
qed

theorem add_memory_queued_witness:
  "fst (startup (map_of [(''OPENAI_API_KEY'', ''sk-1'')])
      \<lparr>import_mem0ai = Inr (), new_MemoryClient = (\<lambda>options. Inl (Error ''not used'')),
       new_Memory = Inr (example_memory (Inl (Error ''store is down'')) None)\<rparr>)
     = Running (local_server (example_memory (Inl (Error ''store is down'')) None)) \<and>
   isReady (local_server (example_memory (Inl (Error ''store is down'')) None)) \<and>
   ToString (example_runtime (Inr 200))
     (property [(''content'', Str ''hello''), (''userId'', Str ''u1'')] ''userId'') = Inr ''u1'' \<and>
   add (example_memory (Inl (Error ''store is down'')) None)
     (Arr [Obj [(''role'', Str ''user''), (''content'', Str ''hello'')]])
     (Obj (local_add_options [(''content'', Str ''hello''), (''userId'', Str ''u1'')]))
     = Inl (Error ''store is down'') \<and>
   fst (CallToolRequest_handler (local_server (example_memory (Inl (Error ''store is down'')) None))
      (map_of [(''OPENAI_API_KEY'', ''sk-1'')]) (example_runtime (Inr 200)) ''add_memory''
      (Some [(''content'', Str ''hello''), (''userId'', Str ''u1'')])) =
    Inr (Obj [(''content'', Arr [Obj [(''type'', Str ''text''), (''text'', Str ''Memory addition queued successfully'')]])])"
proof -
  let ?m = "example_memory (Inl (Error ''store is down'')) None"
  let ?e = "map_of [(''OPENAI_API_KEY'', ''sk-1'')]"
  let ?args = "[(''content'', Str ''hello''), (''userId'', Str ''u1'')]"
  have h1: "fst (startup ?e
      \<lparr>import_mem0ai = Inr (), new_MemoryClient = (\<lambda>options. Inl (Error ''not used'')),
       new_Memory = Inr ?m\<rparr>) = Running (local_server ?m)"
    by (simp add: startup_def Mem0MCPServer_constructor_def getenv_def local_server_def)
  have h2: "isReady (local_server ?m)" by (simp add: local_server_def)
  have h3: "truthy (property ?args ''content'')" by (simp add: property_def)
  have h4: "truthy (property ?args ''userId'')" by (simp add: property_def)
  have h5: "add ?m (Arr [Obj [(''role'', Str ''user''), (''content'', Str ''hello'')]])
     (Obj (local_add_options ?args)) = Inl (Error ''store is down'')"
    by (simp add: example_memory_def)
  have h6: "ToString (example_runtime (Inr 200)) (property ?args ''userId'') = Inr ''u1''"
    by (simp add: property_def)
  from add_memory_queued[OF h1 h2 h3 h4 h6] h1 h2 h5 h6 show ?thesis by simp
qed

text \<open>
  C2. The mode is a function of the environment alone. A variable counts as set when its
  value is a non-empty string (the code tests \<^verbatim>\<open>if (mem0ApiKey)\<close>). If
  \<^verbatim>\<open>MEM0_API_KEY\<close> is set the constructor returns a server in cloud mode, whatever
  \<^verbatim>\<open>OPENAI_API_KEY\<close> is; if only \<^verbatim>\<open>OPENAI_API_KEY\<close> is set the constructor takes the
  local branch, which ends in exit status 1 or in a ready server in local mode with the
  client that \<^verbatim>\<open>new Memory\<close> returned; if neither is set the constructor exits with
  status 1, so no server exists to take a call. A server that runs after startup has the
  mode the environment selected and holds no client of the other mode; the handlers
  take the server as an argument and return no new one, so this holds for as long as the
  process lives.
\<close>

theorem mode_selection:
  "(truthy (getenv e ''MEM0_API_KEY'') \<longrightarrow>
      fst (Mem0MCPServer_constructor e lib) =
        Running \<lparr>isCloudMode = True, localClient = None, cloudClient = None, isReady = False\<rparr>)
 \<and> (\<not> truthy (getenv e ''MEM0_API_KEY'') \<and> truthy (getenv e ''OPENAI_API_KEY'') \<longrightarrow>
      fst (Mem0MCPServer_constructor e lib) = Exited 1 \<or>
      (\<exists>client. new_Memory lib = Inr client \<and>
         fst (Mem0MCPServer_constructor e lib) =
           Running \<lparr>isCloudMode = False, localClient = Some client, cloudClient = None, isReady = True\<rparr>))
 \<and> (\<not> truthy (getenv e ''MEM0_API_KEY'') \<and> \<not> truthy (getenv e ''OPENAI_API_KEY'') \<longrightarrow>
      fst (Mem0MCPServer_constructor e lib) = Exited 1 \<and> fst (startup e lib) = Exited 1)
 \<and> (fst (startup e lib) = Running this \<longrightarrow>
      isCloudMode this = truthy (getenv e ''MEM0_API_KEY'') \<and>
      (cloudClient this \<noteq> None \<longrightarrow> isCloudMode this \<and> localClient this = None) \<and>
      (localClient this \<noteq> None \<longrightarrow> \<not> isCloudMode this \<and> cloudClient this = None))"
proof (intro conjI impI)
  assume "truthy (getenv e ''MEM0_API_KEY'')"
  then show "fst (Mem0MCPServer_constructor e lib) =
        Running \<lparr>isCloudMode = True, localClient = None, cloudClient = None, isReady = False\<rparr>"
    using constructor_cloud[of e lib] by (simp add: pending_server_def)
next
  assume "\<not> truthy (getenv e ''MEM0_API_KEY'') \<and> truthy (getenv e ''OPENAI_API_KEY'')"
  then show "fst (Mem0MCPServer_constructor e lib) = Exited 1 \<or>
      (\<exists>client. new_Memory lib = Inr client \<and>
         fst (Mem0MCPServer_constructor e lib) =
           Running \<lparr>isCloudMode = False, localClient = Some client, cloudClient = None, isReady = True\<rparr>)"
    using constructor_local[of e lib] by (simp add: local_server_def)
next
  assume "\<not> truthy (getenv e ''MEM0_API_KEY'') \<and> \<not> truthy (getenv e ''OPENAI_API_KEY'')"
  then show "fst (Mem0MCPServer_constructor e lib) = Exited 1" "fst (startup e lib) = Exited 1"
    using constructor_neither[of e lib] by simp_all
next
  assume r: "fst (startup e lib) = Running this"
  show "isCloudMode this = truthy (getenv e ''MEM0_API_KEY'')" by (rule running_mode(1)[OF r])
  { assume "cloudClient this \<noteq> None"
    then show "isCloudMode this" "localClient this = None" using running_mode(2)[OF r] by simp_all }
  { assume "localClient this \<noteq> None"
    then show "\<not> isCloudMode this" "cloudClient this = None" using running_mode(3)[OF r] by simp_all }
qed

theorem mode_selection_witness:
  "(truthy (getenv (map_of [(''MEM0_API_KEY'', ''m0-key''), (''OPENAI_API_KEY'', ''sk-1'')]) ''MEM0_API_KEY'') \<and>
    fst (Mem0MCPServer_constructor
           (map_of [(''MEM0_API_KEY'', ''m0-key''), (''OPENAI_API_KEY'', ''sk-1'')]) example_libraries) =
      Running \<lparr>isCloudMode = True, localClient = None, cloudClient = None, isReady = False\<rparr>) \<and>
   (\<not> truthy (getenv (map_of [(''OPENAI_API_KEY'', ''sk-1'')]) ''MEM0_API_KEY'') \<and>
    truthy (getenv (map_of [(''OPENAI_API_KEY'', ''sk-1'')]) ''OPENAI_API_KEY'') \<and>
    fst (Mem0MCPServer_constructor (map_of [(''OPENAI_API_KEY'', ''sk-1'')]) example_libraries) =
      Running \<lparr>isCloudMode = False, localClient = Some (example_memory (Inr Null) None),
               cloudClient = None, isReady = True\<rparr>) \<and>
   (\<not> truthy (getenv Map.empty ''MEM0_API_KEY'') \<and> \<not> truthy (getenv Map.empty ''OPENAI_API_KEY'') \<and>
    fst (Mem0MCPServer_constructor Map.empty example_libraries) = Exited 1 \<and>
    fst (startup Map.empty example_libraries) = Exited 1) \<and>
   (fst (startup (map_of [(''MEM0_API_KEY'', ''m0-key''), (''OPENAI_API_KEY'', ''sk-1'')]) example_libraries) =
      Running (cloud_server (example_client (Inr Null))) \<and>
    isCloudMode (cloud_server (example_client (Inr Null))) \<and>
    cloudClient (cloud_server (example_client (Inr Null))) \<noteq> None \<and>
    localClient (cloud_server (example_client (Inr Null))) = None)"
proof -
  let ?both = "map_of [(''MEM0_API_KEY'', ''m0-key''), (''OPENAI_API_KEY'', ''sk-1'')]"
  let ?local = "map_of [(''OPENAI_API_KEY'', ''sk-1'')]"
  have b: "truthy (getenv ?both ''MEM0_API_KEY'')" by (simp add: getenv_def)
  have l: "\<not> truthy (getenv ?local ''MEM0_API_KEY'')" "truthy (getenv ?local ''OPENAI_API_KEY'')"
    by (simp_all add: getenv_def)
  have n: "\<not> truthy (getenv Map.empty ''MEM0_API_KEY'')" "\<not> truthy (getenv Map.empty ''OPENAI_API_KEY'')"
    by (simp_all add: getenv_def)
  have m: "new_Memory example_libraries = Inr (example_memory (Inr Null) None)"
    by (simp add: example_libraries_def)
  have m': "fst (Mem0MCPServer_constructor ?local example_libraries) \<noteq> Exited 1"
    by (simp add: Mem0MCPServer_constructor_def example_libraries_def getenv_def)
  have s: "fst (startup ?both example_libraries) = Running (cloud_server (example_client (Inr Null)))"
    by (simp add: startup_def Mem0MCPServer_constructor_def import_settled_def example_libraries_def
          getenv_def cloud_server_def)
  have c: "cloudClient (cloud_server (example_client (Inr Null))) \<noteq> None"
    by (simp add: cloud_server_def)
  from mode_selection[of ?both example_libraries "cloud_server (example_client (Inr Null))"]
    mode_selection[of ?local example_libraries] mode_selection[of Map.empty example_libraries]
    b l n m m' s c
  show ?thesis by simp
qed

text \<open>
  C3 asks that a failure to initialize the selected backend ends the process with a
  non-zero status. The evaluation below is of a startup in cloud mode in which the import
  of the library succeeds and \<^verbatim>\<open>new MemoryClient(clientOptions)\<close> throws: the inner
  \<^verbatim>\<open>catch\<close> only prints, and the process keeps running, not ready and without a client.
  (The failure of the import, and of \<^verbatim>\<open>new Memory\<close> in local mode, do end the process
  with status 1: \<open>startup_failures_that_exit\<close>.)
\<close>

theorem cloud_client_failure_keeps_running:
  "fst (startup (map_of [(''MEM0_API_KEY'', ''m0-key'')])
     \<lparr>import_mem0ai = Inr (),
      new_MemoryClient = (\<lambda>options. Inl (Error ''API key is invalid'')),
      new_Memory = Inl (Error ''not used'')\<rparr>) =
     Running \<lparr>isCloudMode = True, localClient = None, cloudClient = None, isReady = False\<rparr>"
  by (simp add: startup_def Mem0MCPServer_constructor_def import_settled_def getenv_def)

text \<open>
  C4. A \<^verbatim>\<open>search_memory\<close> call that passes validation makes exactly one backend call,
  the search of the active client, and the option object of that call has
  \<open>threshold\<close> equal to 0.3 when the caller's threshold is \<^verbatim>\<open>undefined\<close> (omitted)
  or \<^verbatim>\<open>null\<close>, and equal to the caller's threshold otherwise, in cloud mode and in
  local mode alike.
\<close>

theorem search_threshold_default:
  assumes "truthy (property args ''query'')" "truthy (property args ''userId'')"
  shows
   "(isCloudMode this \<and> cloudClient this \<noteq> None \<longrightarrow>
       calls (snd (handleSearchMemory this e rt args)) =
         [cloud_search (property args ''query'') (Obj (cloud_search_options e args))])
  \<and> (\<not> (isCloudMode this \<and> cloudClient this \<noteq> None) \<and> localClient this \<noteq> None \<longrightarrow>
       calls (snd (handleSearchMemory this e rt args)) =
         [local_search (property args ''query'') (Obj (local_search_options args))])
  \<and> property (cloud_search_options e args) ''threshold'' =
       (if property args ''threshold'' = Undefined \<or> property args ''threshold'' = Null
        then Num (3 / 10) else property args ''threshold'')
  \<and> property (local_search_options args) ''threshold'' =
       (if property args ''threshold'' = Undefined \<or> property args ''threshold'' = Null
        then Num (3 / 10) else property args ''threshold'')"
proof (intro conjI impI)
  assume "isCloudMode this \<and> cloudClient this \<noteq> None"
  then show "calls (snd (handleSearchMemory this e rt args)) =
         [cloud_search (property args ''query'') (Obj (cloud_search_options e args))]"
    using search_calls_cloud[OF assms] by simp
next
  assume "\<not> (isCloudMode this \<and> cloudClient this \<noteq> None) \<and> localClient this \<noteq> None"
  then show "calls (snd (handleSearchMemory this e rt args)) =
         [local_search (property args ''query'') (Obj (local_search_options args))]"
    using search_calls_local[OF assms] by simp
next
  show "property (cloud_search_options e args) ''threshold'' =
       (if property args ''threshold'' = Undefined \<or> property args ''threshold'' = Null
        then Num (3 / 10) else property args ''threshold'')"
    by (simp add: cloud_search_threshold effective_threshold_def)
next
  show "property (local_search_options args) ''threshold'' =
       (if property args ''threshold'' = Undefined \<or> property args ''threshold'' = Null
        then Num (3 / 10) else property args ''threshold'')"
    by (simp add: local_search_threshold effective_threshold_def)
qed

theorem search_threshold_default_witness:
  "truthy (property [(''query'', Str ''tea''), (''userId'', Str ''u1'')] ''query'') \<and>
   truthy (property [(''query'', Str ''tea''), (''userId'', Str ''u1'')] ''userId'') \<and>
   calls (snd (handleSearchMemory (cloud_server (example_client (Inr (Arr [])))) Map.empty
            (example_runtime (Inr 200)) [(''query'', Str ''tea''), (''userId'', Str ''u1'')])) =
     [cloud_search (Str ''tea'')
        (Obj [(''user_id'', Str ''u1''), (''version'', Str ''v2''), (''threshold'', Num (3 / 10))])] \<and>
   calls (snd (handleSearchMemory (local_server (example_memory (Inr (Arr [])) None)) Map.empty
            (example_runtime (Inr 200)) [(''query'', Str ''tea''), (''userId'', Str ''u1'')])) =
     [local_search (Str ''tea'')
        (Obj [(''userId'', Str ''u1''), (''sessionId'', Undefined), (''filters'', Undefined),
              (''threshold'', Num (3 / 10))])] \<and>
   property (cloud_search_options Map.empty
       [(''query'', Str ''tea''), (''userId'', Str ''u1''), (''threshold'', Num (1 / 2))]) ''threshold''
     = Num (1 / 2)"
proof -
  let ?args = "[(''query'', Str ''tea''), (''userId'', Str ''u1'')]"
  let ?args' = "[(''query'', Str ''tea''), (''userId'', Str ''u1''), (''threshold'', Num (1 / 2))]"
  have q: "truthy (property ?args ''query'')" and u: "truthy (property ?args ''userId'')"
    by (simp_all add: property_def)
  have q': "truthy (property ?args' ''query'')" and u': "truthy (property ?args' ''userId'')"
    by (simp_all add: property_def)
  have o: "cloud_search_options Map.empty ?args =
      [(''user_id'', Str ''u1''), (''version'', Str ''v2''), (''threshold'', Num (3 / 10))]"
    by (simp add: cloud_search_options_def property_def assign_if_def orgId_def projectId_def
          js_or_def getenv_def effective_threshold_def)
  have l: "local_search_options ?args =
      [(''userId'', Str ''u1''), (''sessionId'', Undefined), (''filters'', Undefined),
              (''threshold'', Num (3 / 10))]"
    by (simp add: local_search_options_def property_def effective_threshold_def)
  have t: "property ?args' ''threshold'' = Num (1 / 2)" by (simp add: property_def)
  from search_threshold_default[OF q u, of "cloud_server (example_client (Inr (Arr [])))" Map.empty
         "example_runtime (Inr 200)"]
       search_threshold_default[OF q u, of "local_server (example_memory (Inr (Arr [])) None)" Map.empty
         "example_runtime (Inr 200)"]
       search_threshold_default[OF q' u', of "local_server (example_memory (Inr (Arr [])) None)" Map.empty
         "example_runtime (Inr 200)"]
       q u o l t
  show ?thesis by (simp add: cloud_server_def local_server_def property_def)
qed

text \<open>
  C5 says that whenever the primary delete throws, the fallback is attempted exactly
  once, and that the caller receives an \<open>InternalError\<close> when both fail. In local mode
  the fallback is guarded: it is called only if the client has a \<^verbatim>\<open>_vectorstore\<close> whose
  \<^verbatim>\<open>delete\<close> is a function. On a client without one, the primary \<^verbatim>\<open>deleteMemory\<close>
  throws and no fallback call is made. In cloud mode the fallback counts as failed only
  if \<^verbatim>\<open>fetch\<close> rejects: when the primary throws and the \<^verbatim>\<open>DELETE\<close> request is answered
  with status 500, the caller receives the success response.
\<close>

theorem fallback_skipped_or_its_failure_unnoticed:
  "deleteMemory (example_memory (Inl (Error ''deleteMemory is not a function'')) None) (Str ''m1'') =
     Inl (Error ''deleteMemory is not a function'') \<and>
   calls (snd (handleDeleteMemory
      (local_server (example_memory (Inl (Error ''deleteMemory is not a function'')) None))
      (map_of [(''OPENAI_API_KEY'', ''sk-1'')]) (example_runtime (Inr 200))
      [(''memoryId'', Str ''m1''), (''userId'', Str ''u1'')])) = [local_deleteMemory (Str ''m1'')] \<and>
   filter is_fallback (calls (snd (handleDeleteMemory
      (local_server (example_memory (Inl (Error ''deleteMemory is not a function'')) None))
      (map_of [(''OPENAI_API_KEY'', ''sk-1'')]) (example_runtime (Inr 200))
      [(''memoryId'', Str ''m1''), (''userId'', Str ''u1'')]))) = [] \<and>
   deleteMemory (example_client (Inl (Error ''deleteMemory is not a function''))) (Str ''m1'') =
     Inl (Error ''deleteMemory is not a function'') \<and>
   fetch (example_runtime (Inr 500)) ''https://api.mem0.ai/v2/memories/m1''
     (fallback_init (map_of [(''MEM0_API_KEY'', ''m0-key'')]) (example_runtime (Inr 500))
        (cloud_delete_options (map_of [(''MEM0_API_KEY'', ''m0-key'')])
           [(''memoryId'', Str ''m1''), (''userId'', Str ''u1'')])) = Inr 500 \<and>
   fst (handleDeleteMemory
      (cloud_server (example_client (Inl (Error ''deleteMemory is not a function''))))
      (map_of [(''MEM0_API_KEY'', ''m0-key'')]) (example_runtime (Inr 500))
      [(''memoryId'', Str ''m1''), (''userId'', Str ''u1'')]) =
     Inr (Obj [(''content'', Arr [Obj [(''type'', Str ''text''),
       (''text'', Str ''Memory m1 deleted successfully'')]])])"
  by (simp add: handleDeleteMemory_def Let_def local_server_def cloud_server_def example_memory_def
        example_client_def example_runtime_def property_def deleted_def text_response_def
        fallback_url_def)

text \<open>
  C5, amended. For a \<^verbatim>\<open>delete_memory\<close> call with truthy \<open>memoryId\<close> and \<open>userId\<close> whose
  primary \<^verbatim>\<open>deleteMemory\<close> call is made (it is in the trace) and throws: in cloud mode
  the trace has exactly one fallback call, the \<^verbatim>\<open>fetch\<close> with method \<^verbatim>\<open>DELETE\<close>, and if
  that rejects the handler fails with an \<open>InternalError\<close> that carries the message; in
  local mode, when the client has a vector store delete function, the trace has exactly
  one fallback call, that function applied to \<^verbatim>\<open>{ids: [memoryId]}\<close>, and if it rejects
  the handler fails with an \<open>InternalError\<close> that carries a message; when the client has
  none, no fallback call is made and the handler fails with the \<open>InternalError\<close>
  \<^verbatim>\<open>Error deleting memory: Local client does not support memory deletion\<close>.
  A failure is \<open>Inl\<close>: no success response is returned. \<open>mid\<close> is \<open>memoryId\<close> as the
  template literal of the request's address prints it. Nothing is stated here about a
  fallback request that is answered with an error status.
\<close>

theorem delete_fallback:
  assumes "truthy (property args ''memoryId'')" "truthy (property args ''userId'')"
  shows
   "(isCloudMode this \<and> cloudClient this = Some client \<and>
     cloud_deleteMemory (property args ''memoryId'') \<in>
       set (calls (snd (handleDeleteMemory this e rt args))) \<and>
     deleteMemory client (property args ''memoryId'') = Inl err \<and>
     ToString rt (property args ''memoryId'') = Inr mid \<longrightarrow>
       filter is_fallback (calls (snd (handleDeleteMemory this e rt args))) =
         [fetch_call (fallback_url mid) (fallback_init e rt (cloud_delete_options e args))] \<and>
       (fetch rt (fallback_url mid) (fallback_init e rt (cloud_delete_options e args)) = Inl err' \<longrightarrow>
        fst (handleDeleteMemory this e rt args) =
          Inl (Mcp (McpError InternalError (''Error deleting memory: '' @ message err')))))
  \<and> (\<not> isCloudMode this \<and> localClient this = Some memory \<and>
     local_deleteMemory (property args ''memoryId'') \<in>
       set (calls (snd (handleDeleteMemory this e rt args))) \<and>
     deleteMemory memory (property args ''memoryId'') = Inl err \<and>
     vectorstore_delete memory = Some delete \<longrightarrow>
       filter is_fallback (calls (snd (handleDeleteMemory this e rt args))) =
         [local_vectorstore_delete (Obj [(''ids'', Arr [property args ''memoryId''])])] \<and>
       (delete (Obj [(''ids'', Arr [property args ''memoryId''])]) = Inl err' \<longrightarrow>
        fst (handleDeleteMemory this e rt args) =
          Inl (Mcp (McpError InternalError (''Error deleting memory: '' @
            (if message err' \<noteq> [] then message err'
             else ''Local client does not support memory deletion''))))))
  \<and> (\<not> isCloudMode this \<and> localClient this = Some memory \<and>
     local_deleteMemory (property args ''memoryId'') \<in>
       set (calls (snd (handleDeleteMemory this e rt args))) \<and>
     deleteMemory memory (property args ''memoryId'') = Inl err \<and>
     vectorstore_delete memory = None \<longrightarrow>
       filter is_fallback (calls (snd (handleDeleteMemory this e rt args))) = [] \<and>
       fst (handleDeleteMemory this e rt args) =
         Inl (Mcp (McpError InternalError
           ''Error deleting memory: Local client does not support memory deletion'')))"
proof (intro conjI impI)
  assume c: "isCloudMode this \<and> cloudClient this = Some client \<and>
     cloud_deleteMemory (property args ''memoryId'') \<in>
       set (calls (snd (handleDeleteMemory this e rt args))) \<and>
     deleteMemory client (property args ''memoryId'') = Inl err \<and>
     ToString rt (property args ''memoryId'') = Inr mid"
  then have c': "isCloudMode this" "cloudClient this = Some client"
    "deleteMemory client (property args ''memoryId'') = Inl err" by simp_all
  from c have m: "ToString rt (property args ''memoryId'') = Inr mid" by simp
  from c have "cloud_deleteMemory (property args ''memoryId'') \<in>
       set (calls (snd (handleDeleteMemory this e rt args)))" by simp
  from cloud_primary_reached[OF this] obtain user where
    u: "ToString rt (property args ''userId'') = Inr user" by blast
  show "filter is_fallback (calls (snd (handleDeleteMemory this e rt args))) =
         [fetch_call (fallback_url mid) (fallback_init e rt (cloud_delete_options e args))]"
    by (rule delete_cloud_fallback(1)[OF assms m u c'])
  assume "fetch rt (fallback_url mid) (fallback_init e rt (cloud_delete_options e args)) = Inl err'"
  then show "fst (handleDeleteMemory this e rt args) =
          Inl (Mcp (McpError InternalError (''Error deleting memory: '' @ message err')))"
    by (rule delete_cloud_fallback(2)[OF assms m u c'])
next
  assume l: "\<not> isCloudMode this \<and> localClient this = Some memory \<and>
     local_deleteMemory (property args ''memoryId'') \<in>
       set (calls (snd (handleDeleteMemory this e rt args))) \<and>
     deleteMemory memory (property args ''memoryId'') = Inl err \<and>
     vectorstore_delete memory = Some delete"
  then have l': "\<not> isCloudMode this" "localClient this = Some memory"
     "deleteMemory memory (property args ''memoryId'') = Inl err"
     "vectorstore_delete memory = Some delete" by simp_all
  from l have "local_deleteMemory (property args ''memoryId'') \<in>
       set (calls (snd (handleDeleteMemory this e rt args)))" by simp
  from local_primary_reached[OF this] obtain mid' user where
    m: "ToString rt (property args ''memoryId'') = Inr mid'" and
    u: "ToString rt (property args ''userId'') = Inr user" by blast
  show "filter is_fallback (calls (snd (handleDeleteMemory this e rt args))) =
         [local_vectorstore_delete (Obj [(''ids'', Arr [property args ''memoryId''])])]"
    by (rule delete_local_fallback(1)[OF assms m u l'])
  assume "delete (Obj [(''ids'', Arr [property args ''memoryId''])]) = Inl err'"
  then show "fst (handleDeleteMemory this e rt args) =
          Inl (Mcp (McpError InternalError (''Error deleting memory: '' @
            (if message err' \<noteq> [] then message err'
             else ''Local client does not support memory deletion''))))"
    by (rule delete_local_fallback(2)[OF assms m u l'])
next
  assume n: "\<not> isCloudMode this \<and> localClient this = Some memory \<and>
     local_deleteMemory (property args ''memoryId'') \<in>
       set (calls (snd (handleDeleteMemory this e rt args))) \<and>
     deleteMemory memory (property args ''memoryId'') = Inl err \<and>
     vectorstore_delete memory = None"
  then have n': "\<not> isCloudMode this" "localClient this = Some memory"
     "deleteMemory memory (property args ''memoryId'') = Inl err"
     "vectorstore_delete memory = None" by simp_all
  from n have "local_deleteMemory (property args ''memoryId'') \<in>
       set (calls (snd (handleDeleteMemory this e rt args)))" by simp
  from local_primary_reached[OF this] obtain mid' user where
    m: "ToString rt (property args ''memoryId'') = Inr mid'" and
    u: "ToString rt (property args ''userId'') = Inr user" by blast
  show "filter is_fallback (calls (snd (handleDeleteMemory this e rt args))) = []"
    by (rule delete_local_no_fallback(1)[OF assms m u n'])
  show "fst (handleDeleteMemory this e rt args) =
         Inl (Mcp (McpError InternalError
           ''Error deleting memory: Local client does not support memory deletion''))"
    by (rule delete_local_no_fallback(2)[OF assms m u n'])
qed

theorem delete_fallback_witness:
  "truthy (property [(''memoryId'', Str ''m1''), (''userId'', Str ''u1'')] ''memoryId'') \<and>
   truthy (property [(''memoryId'', Str ''m1''), (''userId'', Str ''u1'')] ''userId'') \<and>
   deleteMemory (example_client (Inl (Error ''not found''))) (Str ''m1'') = Inl (Error ''not found'') \<and>
   filter is_fallback (calls (snd (handleDeleteMemory
       (cloud_server (example_client (Inl (Error ''not found''))))
       (map_of [(''MEM0_API_KEY'', ''m0-key'')]) (example_runtime (Inl (Error ''network unreachable'')))
       [(''memoryId'', Str ''m1''), (''userId'', Str ''u1'')]))) =
     [fetch_call ''https://api.mem0.ai/v2/memories/m1''
        (fallback_init (map_of [(''MEM0_API_KEY'', ''m0-key'')])
           (example_runtime (Inl (Error ''network unreachable'')))
           (cloud_delete_options (map_of [(''MEM0_API_KEY'', ''m0-key'')])
              [(''memoryId'', Str ''m1''), (''userId'', Str ''u1'')]))] \<and>
   fst (handleDeleteMemory
       (cloud_server (example_client (Inl (Error ''not found''))))
       (map_of [(''MEM0_API_KEY'', ''m0-key'')]) (example_runtime (Inl (Error ''network unreachable'')))
       [(''memoryId'', Str ''m1''), (''userId'', Str ''u1'')]) =
     Inl (Mcp (McpError InternalError ''Error deleting memory: network unreachable'')) \<and>
   filter is_fallback (calls (snd (handleDeleteMemory
       (local_server (example_memory (Inl (Error ''not found''))
          (Some (\<lambda>ids. Inl (Error ''index is read-only'')))))
       Map.empty (example_runtime (Inr 200))
       [(''memoryId'', Str ''m1''), (''userId'', Str ''u1'')]))) =
     [local_vectorstore_delete (Obj [(''ids'', Arr [Str ''m1''])])] \<and>
   fst (handleDeleteMemory
       (local_server (example_memory (Inl (Error ''not found''))
          (Some (\<lambda>ids. Inl (Error ''index is read-only'')))))
       Map.empty (example_runtime (Inr 200))
       [(''memoryId'', Str ''m1''), (''userId'', Str ''u1'')]) =
     Inl (Mcp (McpError InternalError ''Error deleting memory: index is read-only'')) \<and>
   filter is_fallback (calls (snd (handleDeleteMemory
       (local_server (example_memory (Inl (Error ''not found'')) None))
       Map.empty (example_runtime (Inr 200))
       [(''memoryId'', Str ''m1''), (''userId'', Str ''u1'')]))) = [] \<and>
   fst (handleDeleteMemory
       (local_server (example_memory (Inl (Error ''not found'')) None))
       Map.empty (example_runtime (Inr 200))
       [(''memoryId'', Str ''m1''), (''userId'', Str ''u1'')]) =
     Inl (Mcp (McpError InternalError
       ''Error deleting memory: Local client does not support memory deletion''))"
proof -
  let ?args = "[(''memoryId'', Str ''m1''), (''userId'', Str ''u1'')]"
  let ?c = "example_client (Inl (Error ''not found''))"
  let ?e = "map_of [(''MEM0_API_KEY'', ''m0-key'')]"
  let ?rt = "example_runtime (Inl (Error ''network unreachable''))"
  let ?d = "\<lambda>ids::jsval. (Inl (Error ''index is read-only'') :: jsval promise)"
  let ?m1 = "example_memory (Inl (Error ''not found'')) (Some ?d)"
  let ?m2 = "example_memory (Inl (Error ''not found'')) None"
  have m: "property ?args ''memoryId'' = Str ''m1''" by (simp add: property_def)
  have h1: "truthy (property ?args ''memoryId'')" and h2: "truthy (property ?args ''userId'')"
    by (simp_all add: property_def)
  have p: "deleteMemory ?c (Str ''m1'') = Inl (Error ''not found'')"
    by (simp add: example_client_def)
  have u: "fallback_url ''m1'' = ''https://api.mem0.ai/v2/memories/m1''"
    by (simp add: fallback_url_def)
  have r1: "cloud_deleteMemory (Str ''m1'') \<in>
      set (calls (snd (handleDeleteMemory (cloud_server ?c) ?e ?rt ?args)))"
    by (simp add: handleDeleteMemory_def Let_def cloud_server_def example_client_def property_def
          example_runtime_def)
  have r2: "local_deleteMemory (Str ''m1'') \<in>
      set (calls (snd (handleDeleteMemory (local_server ?m1) Map.empty (example_runtime (Inr 200)) ?args)))"
    by (simp add: handleDeleteMemory_def Let_def local_server_def example_memory_def property_def)
  have r3: "local_deleteMemory (Str ''m1'') \<in>
      set (calls (snd (handleDeleteMemory (local_server ?m2) Map.empty (example_runtime (Inr 200)) ?args)))"
    by (simp add: handleDeleteMemory_def Let_def local_server_def example_memory_def property_def)
  have f: "fetch ?rt ''https://api.mem0.ai/v2/memories/m1''
     (fallback_init ?e ?rt (cloud_delete_options ?e ?args)) = Inl (Error ''network unreachable'')"
    by (simp add: example_runtime_def)
  have c: "filter is_fallback (calls (snd (handleDeleteMemory (cloud_server ?c) ?e ?rt ?args))) =
     [fetch_call ''https://api.mem0.ai/v2/memories/m1''
        (fallback_init ?e ?rt (cloud_delete_options ?e ?args))] \<and>
     fst (handleDeleteMemory (cloud_server ?c) ?e ?rt ?args) =
     Inl (Mcp (McpError InternalError ''Error deleting memory: network unreachable''))"
    using delete_fallback[OF h1 h2, where this = "cloud_server ?c" and client = ?c and e = ?e
        and rt = ?rt and err = "Error ''not found''" and err' = "Error ''network unreachable''"
        and mid = "''m1''"]
      p f u r1
    by (simp add: m cloud_server_def)
  have l1: "filter is_fallback (calls (snd (handleDeleteMemory (local_server ?m1) Map.empty
        (example_runtime (Inr 200)) ?args))) =
     [local_vectorstore_delete (Obj [(''ids'', Arr [Str ''m1''])])] \<and>
     fst (handleDeleteMemory (local_server ?m1) Map.empty (example_runtime (Inr 200)) ?args) =
     Inl (Mcp (McpError InternalError ''Error deleting memory: index is read-only''))"
    using delete_fallback[OF h1 h2, where this = "local_server ?m1" and memory = ?m1
        and e = Map.empty and rt = "example_runtime (Inr 200)" and delete = ?d
        and err = "Error ''not found''" and err' = "Error ''index is read-only''"] r2
    by (simp add: m local_server_def example_memory_def)
  have l2: "filter is_fallback (calls (snd (handleDeleteMemory (local_server ?m2) Map.empty
        (example_runtime (Inr 200)) ?args))) = [] \<and>
     fst (handleDeleteMemory (local_server ?m2) Map.empty (example_runtime (Inr 200)) ?args) =
     Inl (Mcp (McpError InternalError
       ''Error deleting memory: Local client does not support memory deletion''))"
    using delete_fallback[OF h1 h2, where this = "local_server ?m2" and memory = ?m2
        and e = Map.empty and rt = "example_runtime (Inr 200)"
        and err = "Error ''not found''"] r3
    by (simp add: m local_server_def example_memory_def)
  show ?thesis using h1 h2 p c l1 l2 by blast
qed

text \<open>
  C6. While the readiness flag is not set, the dispatcher answers every call, whatever the
  tool name and the arguments, with the \<open>InternalError\<close> that says the client is still
  initializing. The trace of such a call is empty: no backend is called, nothing is kept
  for later.
\<close>

theorem not_ready_call_rejected:
  "\<not> isReady this \<Longrightarrow> CallToolRequest_handler this e rt name arguments =
     (Inl (McpError InternalError ''Memory client is still initializing. Please try again in a moment.''), [])"
  by (simp add: CallToolRequest_handler_def)

theorem not_ready_call_rejected_witness:
  "\<not> isReady pending_server \<and>
   CallToolRequest_handler pending_server (map_of [(''MEM0_API_KEY'', ''m0-key'')])
     (example_runtime (Inr 200)) ''search_memory''
     (Some [(''query'', Str ''tea''), (''userId'', Str ''u1'')]) =
     (Inl (McpError InternalError ''Memory client is still initializing. Please try again in a moment.''), [])"
proof -
  have h: "\<not> isReady pending_server" by (simp add: pending_server_def)
  from not_ready_call_rejected[OF h] h show ?thesis by simp
qed

text \<open>
  C7 says that a call naming a tool outside \<^verbatim>\<open>add_memory\<close>, \<^verbatim>\<open>search_memory\<close>,
  \<^verbatim>\<open>delete_memory\<close> always fails with \<open>MethodNotFound\<close>. The dispatcher tests the
  readiness flag before it looks at the name: on a server that is not ready such a call
  fails with \<open>InternalError\<close>.
\<close>

theorem unknown_tool_before_ready:
  "''forget_everything'' \<notin> set [''add_memory'', ''search_memory'', ''delete_memory''] \<and>
   fst (CallToolRequest_handler pending_server (map_of [(''MEM0_API_KEY'', ''m0-key'')])
          (example_runtime (Inr 200)) ''forget_everything'' None) =
     Inl (McpError InternalError
            ''Memory client is still initializing. Please try again in a moment.'')"
  by (simp add: CallToolRequest_handler_def pending_server_def)

text \<open>
  C7, amended. Each handler, called with a required field that is falsy (missing, the
  empty string, \<^verbatim>\<open>null\<close>, \<^verbatim>\<open>0\<close> or \<^verbatim>\<open>false\<close>), fails with \<open>InvalidParams\<close> and an
  empty trace, so without a backend call; and when the server is ready, the dispatcher
  fails with \<open>MethodNotFound\<close> for every tool name outside the three.
\<close>

theorem invalid_arguments_and_unknown_tools:
  "(\<not> truthy (property args ''content'') \<or> \<not> truthy (property args ''userId'') \<longrightarrow>
      error_code (fst (handleAddMemory this e rt args)) = Some InvalidParams \<and>
      snd (handleAddMemory this e rt args) = [])
 \<and> (\<not> truthy (property args ''query'') \<or> \<not> truthy (property args ''userId'') \<longrightarrow>
      error_code (fst (handleSearchMemory this e rt args)) = Some InvalidParams \<and>
      snd (handleSearchMemory this e rt args) = [])
 \<and> (\<not> truthy (property args ''memoryId'') \<or> \<not> truthy (property args ''userId'') \<longrightarrow>
      error_code (fst (handleDeleteMemory this e rt args)) = Some InvalidParams \<and>
      snd (handleDeleteMemory this e rt args) = [])
 \<and> (isReady this \<and> name \<notin> set [''add_memory'', ''search_memory'', ''delete_memory''] \<longrightarrow>
      CallToolRequest_handler this e rt name arguments =
        (Inl (McpError MethodNotFound (''Unknown tool: '' @ name)), []))"
proof (intro conjI impI)
  assume "\<not> truthy (property args ''content'') \<or> \<not> truthy (property args ''userId'')"
  from add_invalid[OF this]
  show "error_code (fst (handleAddMemory this e rt args)) = Some InvalidParams"
    "snd (handleAddMemory this e rt args) = []" by simp_all
next
  assume "\<not> truthy (property args ''query'') \<or> \<not> truthy (property args ''userId'')"
  from search_invalid[OF this]
  show "error_code (fst (handleSearchMemory this e rt args)) = Some InvalidParams"
    "snd (handleSearchMemory this e rt args) = []" by simp_all
next
  assume "\<not> truthy (property args ''memoryId'') \<or> \<not> truthy (property args ''userId'')"
  from delete_invalid[OF this]
  show "error_code (fst (handleDeleteMemory this e rt args)) = Some InvalidParams"
    "snd (handleDeleteMemory this e rt args) = []" by simp_all
next
  assume "isReady this \<and> name \<notin> set [''add_memory'', ''search_memory'', ''delete_memory'']"
  then show "CallToolRequest_handler this e rt name arguments =
        (Inl (McpError MethodNotFound (''Unknown tool: '' @ name)), [])"
    using unknown_tool[of this name e rt arguments] by simp
qed

theorem invalid_arguments_and_unknown_tools_witness:
  "\<not> truthy (property [(''content'', Str ''''), (''userId'', Str ''u1'')] ''content'') \<and>
   \<not> truthy (property [(''content'', Str ''''), (''userId'', Str ''u1'')] ''query'') \<and>
   \<not> truthy (property [(''content'', Str ''''), (''userId'', Str ''u1'')] ''memoryId'') \<and>
   error_code (fst (handleAddMemory (local_server (example_memory (Inr Null) None)) Map.empty
       (example_runtime (Inr 200)) [(''content'', Str ''''), (''userId'', Str ''u1'')])) = Some InvalidParams \<and>
   snd (handleAddMemory (local_server (example_memory (Inr Null) None)) Map.empty
       (example_runtime (Inr 200)) [(''content'', Str ''''), (''userId'', Str ''u1'')]) = [] \<and>
   error_code (fst (handleSearchMemory (local_server (example_memory (Inr Null) None)) Map.empty
       (example_runtime (Inr 200)) [(''content'', Str ''''), (''userId'', Str ''u1'')])) = Some InvalidParams \<and>
   error_code (fst (handleDeleteMemory (local_server (example_memory (Inr Null) None)) Map.empty
       (example_runtime (Inr 200)) [(''content'', Str ''''), (''userId'', Str ''u1'')])) = Some InvalidParams \<and>
   isReady (local_server (example_memory (Inr Null) None)) \<and>
   ''forget_everything'' \<notin> set [''add_memory'', ''search_memory'', ''delete_memory''] \<and>
   CallToolRequest_handler (local_server (example_memory (Inr Null) None)) Map.empty
       (example_runtime (Inr 200)) ''forget_everything'' None =
     (Inl (McpError MethodNotFound ''Unknown tool: forget_everything''), [])"
proof -
  let ?args = "[(''content'', Str ''''), (''userId'', Str ''u1'')]"
  have a: "\<not> truthy (property ?args ''content'')" "\<not> truthy (property ?args ''query'')"
    "\<not> truthy (property ?args ''memoryId'')"
    by (simp_all add: property_def)
  have r: "isReady (local_server (example_memory (Inr Null) None))"
    by (simp add: local_server_def)
  have n: "''forget_everything'' \<notin> set [''add_memory'', ''search_memory'', ''delete_memory'']"
    by simp
  from invalid_arguments_and_unknown_tools[of ?args "local_server (example_memory (Inr Null) None)"
         Map.empty "example_runtime (Inr 200)" "''forget_everything''" None] a r n
  show ?thesis by simp
qed

text \<open>
  C8 says that, with \<^verbatim>\<open>ORG_ID\<close> and \<^verbatim>\<open>PROJECT_ID\<close> configured, every cloud request,
  delete included, carries them as \<open>org_id\<close> and \<open>project_id\<close>. First, the handlers
  read \<^verbatim>\<open>process.env.YOUR_ORG_ID || process.env.ORG_ID\<close>: with both variables set, the
  \<open>org_id\<close> of an add request is the value of \<^verbatim>\<open>YOUR_ORG_ID\<close>, not the configured
  \<^verbatim>\<open>ORG_ID\<close>. Second, the handler of \<^verbatim>\<open>delete_memory\<close> builds an option object with
  the identifiers, but its primary call is \<^verbatim>\<open>this.cloudClient.deleteMemory(memoryId)\<close>:
  with both identifiers configured and the primary call succeeding, the only backend
  call of the request is passed the memory id and no option object.
\<close>

theorem your_org_id_wins_and_delete_passes_only_the_id:
  "getenv overridden_env ''ORG_ID'' = Str ''org-1'' \<and>
   calls (snd (handleAddMemory (cloud_server (example_client (Inr Null))) overridden_env
      (example_runtime (Inr 200)) [(''content'', Str ''hello''), (''userId'', Str ''u1'')])) =
     [cloud_add (Arr [Obj [(''role'', Str ''user''), (''content'', Str ''hello'')]])
        (Obj [(''user_id'', Str ''u1''), (''version'', Str ''v2''), (''org_id'', Str ''your-org'')])] \<and>
   orgId scoped_env = Str ''org-1'' \<and>
   projectId scoped_env = Str ''proj-1'' \<and>
   calls (snd (handleDeleteMemory (cloud_server (example_client (Inr Null))) scoped_env
      (example_runtime (Inr 200)) [(''memoryId'', Str ''m1''), (''userId'', Str ''u1'')])) =
     [cloud_deleteMemory (Str ''m1'')] \<and>
   options_passed (cloud_deleteMemory (Str ''m1'')) = None"
  by (simp add: handleAddMemory_def handleDeleteMemory_def Let_def cloud_server_def
        example_client_def property_def cloud_add_options_def assign_if_def
        orgId_def projectId_def js_or_def getenv_def deleted_using_def scoped_env_def
        overridden_env_def)

text \<open>
  C8, amended. The organization identifier is \<^verbatim>\<open>YOUR_ORG_ID\<close> if that is non-empty and
  \<^verbatim>\<open>ORG_ID\<close> otherwise, and likewise for the project. The option objects of the cloud
  \<^verbatim>\<open>add\<close> and \<^verbatim>\<open>search\<close> calls and the option object serialized into the body of the
  fallback \<^verbatim>\<open>fetch\<close> of a delete have \<open>org_id\<close> (\<open>project_id\<close>) exactly when the
  identifier is non-empty, with the identifier as value, whatever the arguments of the
  call are; the primary delete call is passed the memory id only. The calls are those of
  a request that passes the validation and whose \<open>userId\<close> (for a delete: \<open>memoryId\<close>
  and \<open>userId\<close>) converts to a string for the line printed first; \<open>mid\<close> is \<open>memoryId\<close>
  so converted. In the witness the caller's arguments contain an \<open>org_id\<close> of their own,
  which reaches no request.
\<close>

theorem cloud_scoping:
  "map_of (cloud_add_options e args) ''org_id'' = (if truthy (orgId e) then Some (orgId e) else None)
 \<and> map_of (cloud_add_options e args) ''project_id'' =
     (if truthy (projectId e) then Some (projectId e) else None)
 \<and> map_of (cloud_search_options e args) ''org_id'' = (if truthy (orgId e) then Some (orgId e) else None)
 \<and> map_of (cloud_search_options e args) ''project_id'' =
     (if truthy (projectId e) then Some (projectId e) else None)
 \<and> map_of (cloud_delete_options e args) ''org_id'' = (if truthy (orgId e) then Some (orgId e) else None)
 \<and> map_of (cloud_delete_options e args) ''project_id'' =
     (if truthy (projectId e) then Some (projectId e) else None)
 \<and> orgId e = (if truthy (getenv e ''YOUR_ORG_ID'') then getenv e ''YOUR_ORG_ID''
               else getenv e ''ORG_ID'')
 \<and> projectId e = (if truthy (getenv e ''YOUR_PROJECT_ID'') then getenv e ''YOUR_PROJECT_ID''
                   else getenv e ''PROJECT_ID'')
 \<and> (isCloudMode this \<and> cloudClient this = Some client \<and>
     truthy (property args ''content'') \<and> truthy (property args ''userId'') \<and>
     ToString rt (property args ''userId'') = Inr user \<longrightarrow>
       calls (snd (handleAddMemory this e rt args)) =
         [cloud_add (Arr [Obj [(''role'', Str ''user''), (''content'', property args ''content'')]])
            (Obj (cloud_add_options e args))])
 \<and> (isCloudMode this \<and> cloudClient this = Some client \<and>
     truthy (property args ''query'') \<and> truthy (property args ''userId'') \<longrightarrow>
       calls (snd (handleSearchMemory this e rt args)) =
         [cloud_search (property args ''query'') (Obj (cloud_search_options e args))])
 \<and> (isCloudMode this \<and> cloudClient this = Some client \<and>
     truthy (property args ''memoryId'') \<and> truthy (property args ''userId'') \<and>
     ToString rt (property args ''memoryId'') = Inr mid \<and>
     ToString rt (property args ''userId'') = Inr user \<longrightarrow>
       calls (snd (handleDeleteMemory this e rt args)) =
         cloud_deleteMemory (property args ''memoryId'') #
           (case deleteMemory client (property args ''memoryId'') of
              Inr r \<Rightarrow> []
            | Inl err \<Rightarrow> [fetch_call (fallback_url mid)
                            (fallback_init e rt (cloud_delete_options e args))]))
 \<and> (case fallback_init e rt (cloud_delete_options e args) of
       Obj init \<Rightarrow> property init ''body'' | _ \<Rightarrow> Undefined) =
     JSON_stringify rt (Obj (cloud_delete_options e args)) 0"
proof (intro conjI impI)
  show "orgId e = (if truthy (getenv e ''YOUR_ORG_ID'') then getenv e ''YOUR_ORG_ID''
               else getenv e ''ORG_ID'')"
    by (simp add: orgId_def js_or_def)
  show "projectId e = (if truthy (getenv e ''YOUR_PROJECT_ID'') then getenv e ''YOUR_PROJECT_ID''
                   else getenv e ''PROJECT_ID'')"
    by (simp add: projectId_def js_or_def)
next
  assume "isCloudMode this \<and> cloudClient this = Some client \<and>
     truthy (property args ''content'') \<and> truthy (property args ''userId'') \<and>
     ToString rt (property args ''userId'') = Inr user"
  then show "calls (snd (handleAddMemory this e rt args)) =
         [cloud_add (Arr [Obj [(''role'', Str ''user''), (''content'', property args ''content'')]])
            (Obj (cloud_add_options e args))]"
    using add_calls_cloud[of args this client rt user e] by simp
next
  assume "isCloudMode this \<and> cloudClient this = Some client \<and>
     truthy (property args ''query'') \<and> truthy (property args ''userId'')"
  then show "calls (snd (handleSearchMemory this e rt args)) =
         [cloud_search (property args ''query'') (Obj (cloud_search_options e args))]"
    using search_calls_cloud[of args this e rt] by simp
next
  assume "isCloudMode this \<and> cloudClient this = Some client \<and>
     truthy (property args ''memoryId'') \<and> truthy (property args ''userId'') \<and>
     ToString rt (property args ''memoryId'') = Inr mid \<and>
     ToString rt (property args ''userId'') = Inr user"
  then show "calls (snd (handleDeleteMemory this e rt args)) =
         cloud_deleteMemory (property args ''memoryId'') #
           (case deleteMemory client (property args ''memoryId'') of
              Inr r \<Rightarrow> []
            | Inl err \<Rightarrow> [fetch_call (fallback_url mid)
                            (fallback_init e rt (cloud_delete_options e args))])"
    using delete_calls_cloud[of args rt mid user this client e] by simp
qed (simp_all only: scope_of_options fallback_body)


theorem cloud_scoping_witness:
  "isCloudMode (cloud_server (example_client (Inl (Error ''not found'')))) \<and>
   truthy (property [(''content'', Str ''hello''), (''query'', Str ''tea''), (''memoryId'', Str ''m1''),
                     (''userId'', Str ''u1''), (''org_id'', Str ''other-org'')] ''userId'') \<and>
   calls (snd (handleAddMemory (cloud_server (example_client (Inl (Error ''not found''))))
      scoped_env
      (example_runtime (Inr 200))
      [(''content'', Str ''hello''), (''query'', Str ''tea''), (''memoryId'', Str ''m1''),
       (''userId'', Str ''u1''), (''org_id'', Str ''other-org'')])) =
     [cloud_add (Arr [Obj [(''role'', Str ''user''), (''content'', Str ''hello'')]])
        (Obj [(''user_id'', Str ''u1''), (''version'', Str ''v2''),
              (''org_id'', Str ''org-1''), (''project_id'', Str ''proj-1'')])] \<and>
   calls (snd (handleSearchMemory (cloud_server (example_client (Inl (Error ''not found''))))
      scoped_env
      (example_runtime (Inr 200))
      [(''content'', Str ''hello''), (''query'', Str ''tea''), (''memoryId'', Str ''m1''),
       (''userId'', Str ''u1''), (''org_id'', Str ''other-org'')])) =
     [cloud_search (Str ''tea'')
        (Obj [(''user_id'', Str ''u1''), (''version'', Str ''v2''),
              (''org_id'', Str ''org-1''), (''project_id'', Str ''proj-1''),
              (''threshold'', Num (3 / 10))])] \<and>
   calls (snd (handleDeleteMemory (cloud_server (example_client (Inl (Error ''not found''))))
      scoped_env
      (example_runtime (Inr 200))
      [(''content'', Str ''hello''), (''query'', Str ''tea''), (''memoryId'', Str ''m1''),
       (''userId'', Str ''u1''), (''org_id'', Str ''other-org'')])) =
     [cloud_deleteMemory (Str ''m1''),
      fetch_call ''https://api.mem0.ai/v2/memories/m1''
        (fallback_init scoped_env (example_runtime (Inr 200))
           [(''memory_id'', Str ''m1''), (''user_id'', Str ''u1''), (''version'', Str ''v2''),
            (''org_id'', Str ''org-1''), (''project_id'', Str ''proj-1'')])]"
proof -
  let ?c = "example_client (Inl (Error ''not found''))"
  let ?e = scoped_env
  let ?rt = "example_runtime (Inr 200)"
  let ?args = "[(''content'', Str ''hello''), (''query'', Str ''tea''), (''memoryId'', Str ''m1''),
       (''userId'', Str ''u1''), (''org_id'', Str ''other-org'')]"
  have s: "isCloudMode (cloud_server ?c)" "cloudClient (cloud_server ?c) = Some ?c"
    by (simp_all add: cloud_server_def)
  have p: "property ?args ''content'' = Str ''hello''" "property ?args ''query'' = Str ''tea''"
    "property ?args ''memoryId'' = Str ''m1''" "property ?args ''userId'' = Str ''u1''"
    by (simp_all add: property_def)
  have o1: "cloud_add_options ?e ?args =
      [(''user_id'', Str ''u1''), (''version'', Str ''v2''),
       (''org_id'', Str ''org-1''), (''project_id'', Str ''proj-1'')]"
    by (simp add: cloud_add_options_def assign_if_def property_def orgId_def projectId_def
          js_or_def getenv_def scoped_env_def)
  have o2: "cloud_search_options ?e ?args =
      [(''user_id'', Str ''u1''), (''version'', Str ''v2''),
       (''org_id'', Str ''org-1''), (''project_id'', Str ''proj-1''), (''threshold'', Num (3 / 10))]"
    by (simp add: cloud_search_options_def assign_if_def property_def orgId_def projectId_def
          js_or_def getenv_def effective_threshold_def scoped_env_def)
  have o3: "cloud_delete_options ?e ?args =
      [(''memory_id'', Str ''m1''), (''user_id'', Str ''u1''), (''version'', Str ''v2''),
       (''org_id'', Str ''org-1''), (''project_id'', Str ''proj-1'')]"
    by (simp add: cloud_delete_options_def assign_if_def property_def orgId_def projectId_def
          js_or_def getenv_def scoped_env_def)
  have d: "deleteMemory ?c (Str ''m1'') = Inl (Error ''not found'')"
    by (simp add: example_client_def)
  have u: "fallback_url ''m1'' = ''https://api.mem0.ai/v2/memories/m1''"
    by (simp add: fallback_url_def)
  note t = cloud_scoping[where e = ?e and args = ?args and this = "cloud_server ?c" and client = ?c
      and rt = ?rt and user = "''u1''" and mid = "''m1''"]
  have c1: "calls (snd (handleAddMemory (cloud_server ?c) ?e ?rt ?args)) =
     [cloud_add (Arr [Obj [(''role'', Str ''user''), (''content'', Str ''hello'')]])
        (Obj [(''user_id'', Str ''u1''), (''version'', Str ''v2''),
              (''org_id'', Str ''org-1''), (''project_id'', Str ''proj-1'')])]"
    using t s by (simp add: p o1)
  have c2: "calls (snd (handleSearchMemory (cloud_server ?c) ?e ?rt ?args)) =
     [cloud_search (Str ''tea'')
        (Obj [(''user_id'', Str ''u1''), (''version'', Str ''v2''),
              (''org_id'', Str ''org-1''), (''project_id'', Str ''proj-1''),
              (''threshold'', Num (3 / 10))])]"
    using t s by (simp add: p o2)
  have c3: "calls (snd (handleDeleteMemory (cloud_server ?c) ?e ?rt ?args)) =
     [cloud_deleteMemory (Str ''m1''),
      fetch_call ''https://api.mem0.ai/v2/memories/m1''
        (fallback_init ?e ?rt
           [(''memory_id'', Str ''m1''), (''user_id'', Str ''u1''), (''version'', Str ''v2''),
            (''org_id'', Str ''org-1''), (''project_id'', Str ''proj-1'')])]"
    using t s by (simp add: p o3 d u)
  have a: "truthy (property ?args ''userId'')" by (simp add: p)
  show ?thesis by (intro conjI s(1) a c1 c2 c3)
qed

text \<open>
  C9. In cloud mode, for a \<^verbatim>\<open>delete_memory\<close> call that reaches the primary
  \<^verbatim>\<open>deleteMemory\<close> call (the call is in the trace), when that call throws and the
  fallback \<^verbatim>\<open>fetch\<close> resolves, \<^verbatim>\<open>handleDeleteMemory\<close> answers
  \<^verbatim>\<open>Memory ${memoryId} deleted successfully\<close> whatever the HTTP status of the response
  is: the response is not looked at. \<open>mid\<close> is \<open>memoryId\<close> as the template literal
  prints it. In the witness the status is 404.
\<close>

theorem cloud_fallback_ignores_status:
  assumes "isCloudMode this" "cloudClient this = Some client"
    "cloud_deleteMemory (property args ''memoryId'') \<in>
       set (calls (snd (handleDeleteMemory this e rt args)))"
    "deleteMemory client (property args ''memoryId'') = Inl err"
    "ToString rt (property args ''memoryId'') = Inr mid"
    "fetch rt (fallback_url mid) (fallback_init e rt (cloud_delete_options e args)) = Inr status"
  shows "fst (handleDeleteMemory this e rt args) =
    Inr (Obj [(''content'', Arr [Obj [(''type'', Str ''text''),
      (''text'', Str (''Memory '' @ mid @ '' deleted successfully''))]])])"
proof -
  from cloud_primary_reached[OF assms(3)] obtain user where
    r: "truthy (property args ''memoryId'')" "truthy (property args ''userId'')"
       "ToString rt (property args ''userId'') = Inr user"
    by blast
  from delete_cloud_fallback(3)[OF r(1,2) assms(5) r(3) assms(1,2,4,6)]
  show ?thesis by (simp add: deleted_def text_response_def)
qed

theorem cloud_fallback_ignores_status_witness:
  "isCloudMode (cloud_server (example_client (Inl (Error ''deleteMemory is not a function'')))) \<and>
   cloud_deleteMemory (Str ''m1'') \<in>
     set (calls (snd (handleDeleteMemory
       (cloud_server (example_client (Inl (Error ''deleteMemory is not a function''))))
       (map_of [(''MEM0_API_KEY'', ''m0-key'')]) (example_runtime (Inr 404))
       [(''memoryId'', Str ''m1''), (''userId'', Str ''u1'')]))) \<and>
   deleteMemory (example_client (Inl (Error ''deleteMemory is not a function''))) (Str ''m1'') =
     Inl (Error ''deleteMemory is not a function'') \<and>
   fetch (example_runtime (Inr 404)) ''https://api.mem0.ai/v2/memories/m1''
     (fallback_init (map_of [(''MEM0_API_KEY'', ''m0-key'')]) (example_runtime (Inr 404))
        (cloud_delete_options (map_of [(''MEM0_API_KEY'', ''m0-key'')])
           [(''memoryId'', Str ''m1''), (''userId'', Str ''u1'')])) = Inr 404 \<and>
   fst (handleDeleteMemory (cloud_server (example_client (Inl (Error ''deleteMemory is not a function''))))
          (map_of [(''MEM0_API_KEY'', ''m0-key'')]) (example_runtime (Inr 404))
          [(''memoryId'', Str ''m1''), (''userId'', Str ''u1'')]) =
     Inr (Obj [(''content'', Arr [Obj [(''type'', Str ''text''),
       (''text'', Str ''Memory m1 deleted successfully'')]])])"
proof -
  let ?args = "[(''memoryId'', Str ''m1''), (''userId'', Str ''u1'')]"
  let ?c = "example_client (Inl (Error ''deleteMemory is not a function''))"
  let ?e = "map_of [(''MEM0_API_KEY'', ''m0-key'')]"
  let ?rt = "example_runtime (Inr 404)"
  have m: "property ?args ''memoryId'' = Str ''m1''" by (simp add: property_def)
  have h1: "isCloudMode (cloud_server ?c)" and h2: "cloudClient (cloud_server ?c) = Some ?c"
    by (simp_all add: cloud_server_def)
  have h3: "cloud_deleteMemory (Str ''m1'') \<in>
      set (calls (snd (handleDeleteMemory (cloud_server ?c) ?e ?rt ?args)))"
    by (simp add: handleDeleteMemory_def Let_def cloud_server_def example_client_def property_def
          example_runtime_def deleted_using_def)
  have h4: "deleteMemory ?c (Str ''m1'') = Inl (Error ''deleteMemory is not a function'')"
    by (simp add: example_client_def)
  have h5: "ToString ?rt (Str ''m1'') = Inr ''m1''" by simp
  have u: "fallback_url ''m1'' = ''https://api.mem0.ai/v2/memories/m1''"
    by (simp add: fallback_url_def)
  have h6: "fetch ?rt (fallback_url ''m1'')
       (fallback_init ?e ?rt (cloud_delete_options ?e ?args)) = Inr 404"
    by (simp add: example_runtime_def)
  note t = cloud_fallback_ignores_status[of "cloud_server ?c" ?c ?args ?e ?rt _ "''m1''" 404,
      unfolded m, OF h1 h2 h3 h4 h5 h6]
  have r: "fst (handleDeleteMemory (cloud_server ?c) ?e ?rt ?args) =
     Inr (Obj [(''content'', Arr [Obj [(''type'', Str ''text''),
       (''text'', Str ''Memory m1 deleted successfully'')]])])"
    using t by simp
  have f: "fetch ?rt ''https://api.mem0.ai/v2/memories/m1''
     (fallback_init ?e ?rt (cloud_delete_options ?e ?args)) = Inr 404"
    using h6 u by simp
  show ?thesis by (intro conjI h1 h3 h4 f r)
qed

text \<open>
  C10. In local mode the option objects handed to the client's \<^verbatim>\<open>add\<close> and \<^verbatim>\<open>search\<close>
  are \<^verbatim>\<open>{userId, sessionId, metadata}\<close> and \<^verbatim>\<open>{userId, sessionId, filters, threshold}\<close>:
  \<open>agentId\<close> is not among their properties. The \<^verbatim>\<open>add\<close> call is made when the arguments
  pass the validation and \<open>userId\<close> converts to a string for the line printed before it;
  the \<^verbatim>\<open>search\<close> call is made when the arguments pass the validation. Two argument
  objects that agree on every property but \<open>agentId\<close> give the same result and the same
  trace, calls included.
\<close>

theorem local_mode_drops_agentId:
  assumes "\<not> isCloudMode this" "localClient this = Some client"
  shows
   "(truthy (property args ''content'') \<and> truthy (property args ''userId'') \<and>
     ToString rt (property args ''userId'') = Inr user \<longrightarrow>
       calls (snd (handleAddMemory this e rt args)) =
         [local_add (Arr [Obj [(''role'', Str ''user''), (''content'', property args ''content'')]])
            (Obj [(''userId'', property args ''userId''),
                  (''sessionId'', property args ''sessionId''),
                  (''metadata'', property args ''metadata'')])])
  \<and> (truthy (property args ''query'') \<and> truthy (property args ''userId'') \<longrightarrow>
       calls (snd (handleSearchMemory this e rt args)) =
         [local_search (property args ''query'')
            (Obj [(''userId'', property args ''userId''),
                  (''sessionId'', property args ''sessionId''),
                  (''filters'', property args ''filters''),
                  (''threshold'', effective_threshold (property args ''threshold''))])])
  \<and> ((\<forall>k. k \<noteq> ''agentId'' \<longrightarrow> property args k = property args' k) \<longrightarrow>
       handleAddMemory this e rt args = handleAddMemory this e rt args' \<and>
       handleSearchMemory this e rt args = handleSearchMemory this e rt args')"
proof (intro conjI impI)
  assume "truthy (property args ''content'') \<and> truthy (property args ''userId'') \<and>
     ToString rt (property args ''userId'') = Inr user"
  then show "calls (snd (handleAddMemory this e rt args)) =
         [local_add (Arr [Obj [(''role'', Str ''user''), (''content'', property args ''content'')]])
            (Obj [(''userId'', property args ''userId''),
                  (''sessionId'', property args ''sessionId''),
                  (''metadata'', property args ''metadata'')])]"
    using local_add_call[OF assms, of args rt user e] by simp
next
  assume "truthy (property args ''query'') \<and> truthy (property args ''userId'')"
  then show "calls (snd (handleSearchMemory this e rt args)) =
         [local_search (property args ''query'')
            (Obj [(''userId'', property args ''userId''),
                  (''sessionId'', property args ''sessionId''),
                  (''filters'', property args ''filters''),
                  (''threshold'', effective_threshold (property args ''threshold''))])]"
    using local_search_call[OF assms] by simp
next
  assume a: "\<forall>k. k \<noteq> ''agentId'' \<longrightarrow> property args k = property args' k"
  show "handleAddMemory this e rt args = handleAddMemory this e rt args'"
    by (rule local_add_ignores_agentId[OF assms a])
  show "handleSearchMemory this e rt args = handleSearchMemory this e rt args'"
    by (rule local_search_ignores_agentId[OF assms a])
qed

theorem local_mode_drops_agentId_witness:
  "\<not> isCloudMode (local_server (example_memory (Inr (Arr [])) None)) \<and>
   truthy (property [(''content'', Str ''hello''), (''query'', Str ''tea''), (''userId'', Str ''u1''),
                     (''agentId'', Str ''agent-a'')] ''content'') \<and>
   calls (snd (handleAddMemory (local_server (example_memory (Inr (Arr [])) None)) Map.empty
     (example_runtime (Inr 200))
     [(''content'', Str ''hello''), (''query'', Str ''tea''), (''userId'', Str ''u1''),
      (''agentId'', Str ''agent-a'')])) =
     [local_add (Arr [Obj [(''role'', Str ''user''), (''content'', Str ''hello'')]])
        (Obj [(''userId'', Str ''u1''), (''sessionId'', Undefined), (''metadata'', Undefined)])] \<and>
   calls (snd (handleSearchMemory (local_server (example_memory (Inr (Arr [])) None)) Map.empty
     (example_runtime (Inr 200))
     [(''content'', Str ''hello''), (''query'', Str ''tea''), (''userId'', Str ''u1''),
      (''agentId'', Str ''agent-a'')])) =
     [local_search (Str ''tea'')
        (Obj [(''userId'', Str ''u1''), (''sessionId'', Undefined), (''filters'', Undefined),
              (''threshold'', Num (3 / 10))])] \<and>
   handleAddMemory (local_server (example_memory (Inr (Arr [])) None)) Map.empty
     (example_runtime (Inr 200))
     [(''content'', Str ''hello''), (''query'', Str ''tea''), (''userId'', Str ''u1''),
      (''agentId'', Str ''agent-a'')] =
   handleAddMemory (local_server (example_memory (Inr (Arr [])) None)) Map.empty
     (example_runtime (Inr 200))
     [(''content'', Str ''hello''), (''query'', Str ''tea''), (''userId'', Str ''u1''),
      (''agentId'', Str ''agent-b'')]"
proof -
  let ?s = "local_server (example_memory (Inr (Arr [])) None)"
  let ?a = "[(''content'', Str ''hello''), (''query'', Str ''tea''), (''userId'', Str ''u1''),
                     (''agentId'', Str ''agent-a'')]"
  let ?b = "[(''content'', Str ''hello''), (''query'', Str ''tea''), (''userId'', Str ''u1''),
                     (''agentId'', Str ''agent-b'')]"
  have h1: "\<not> isCloudMode ?s" and h2: "localClient ?s = Some (example_memory (Inr (Arr [])) None)"
    by (simp_all add: local_server_def)
  have p: "property ?a ''content'' = Str ''hello''" "property ?a ''query'' = Str ''tea''"
    "property ?a ''userId'' = Str ''u1''" "property ?a ''sessionId'' = Undefined"
    "property ?a ''metadata'' = Undefined" "property ?a ''filters'' = Undefined"
    "property ?a ''threshold'' = Undefined"
    by (simp_all add: property_def)
  have d: "\<forall>k. k \<noteq> ''agentId'' \<longrightarrow> property ?a k = property ?b k"
    by (simp add: property_def)
  note t = local_mode_drops_agentId[OF h1 h2, of ?a "example_runtime (Inr 200)" "''u1''" Map.empty ?b]
  have a: "truthy (property ?a ''content'')" by (simp add: p)
  have c1: "calls (snd (handleAddMemory ?s Map.empty (example_runtime (Inr 200)) ?a)) =
     [local_add (Arr [Obj [(''role'', Str ''user''), (''content'', Str ''hello'')]])
        (Obj [(''userId'', Str ''u1''), (''sessionId'', Undefined), (''metadata'', Undefined)])]"
    using t p by simp
  have c2: "calls (snd (handleSearchMemory ?s Map.empty (example_runtime (Inr 200)) ?a)) =
     [local_search (Str ''tea'')
        (Obj [(''userId'', Str ''u1''), (''sessionId'', Undefined), (''filters'', Undefined),
              (''threshold'', Num (3 / 10))])]"
    using t p by (simp add: effective_threshold_def)
  have c3: "handleAddMemory ?s Map.empty (example_runtime (Inr 200)) ?a =
            handleAddMemory ?s Map.empty (example_runtime (Inr 200)) ?b"
    using t d by blast
  show ?thesis by (intro conjI h1 a c1 c2 c3)
qed

end
